theory Spec2Isabelle
  imports Complex_Main
begin

text \<open>
  A model of the text and audio processing around the voice-cloning synthesis call of
  the Memotag voice-clone repository, and of the three synthesis paths:
  \<^item> \<open>ml_\<close> names a method of \<open>MultilingualVoiceCloner\<close>
    (\<open>app/voice_cloner_multilingual.py\<close>), the single-shot path;
  \<^item> \<open>ws_\<close> names a method of \<open>WebSocketFixedHinglishCloner\<close>
    (\<open>app/websocket_fixed_cloner.py\<close>), which inherits from the former;
  \<^item> \<open>rt_\<close> names a method of \<open>FixedRealTimeHinglishVoiceCloner\<close>
    (\<open>app/voice_cloner_realtime_fixed.py\<close>), the streaming path.
  All definitions come first; the properties and the claims follow.
\<close>

section \<open>Text: Python strings, whitespace, and the regular-expression substitutions\<close>

text \<open>
  A Python \<open>str\<close> is a sequence of Unicode code points, and \<open>len\<close> counts code points.
  A string is therefore a list of code points (natural numbers), not a list of bytes.
  \<open>ascii\<close> writes an ASCII literal as such a list.
\<close>

type_synonym ustr = "nat list"

definition ascii :: "string \<Rightarrow> ustr" where
  "ascii s = map of_char s"

text \<open>
  \<open>str.split()\<close>, \<open>str.strip()\<close> and the class \<open>\s\<close> of a \<open>str\<close> pattern all use the same
  predicate of CPython (\<open>Py_UNICODE_ISSPACE\<close>): U+0009..U+000D, U+001C..U+0020, U+0085,
  U+00A0, U+1680, U+2000..U+200A, U+2028, U+2029, U+202F, U+205F, U+3000.
\<close>

definition py_isspace :: "nat \<Rightarrow> bool" where
  "py_isspace c = ((9 \<le> c \<and> c \<le> 13) \<or> (28 \<le> c \<and> c \<le> 32) \<or> c = 133 \<or> c = 160
     \<or> c = 5760 \<or> (8192 \<le> c \<and> c \<le> 8202) \<or> c = 8232 \<or> c = 8233 \<or> c = 8239
     \<or> c = 8287 \<or> c = 12288)"

text \<open>\<open>text.split()\<close>: the maximal runs of non-whitespace, in order.\<close>

function py_split :: "ustr \<Rightarrow> ustr list" where
  "py_split [] = []"
| "py_split (c # cs) =
     (if py_isspace c then py_split cs
      else (c # takeWhile (\<lambda>d. \<not> py_isspace d) cs)
             # py_split (dropWhile (\<lambda>d. \<not> py_isspace d) cs))"
  by pat_completeness auto
termination
  by (relation "measure length") (auto simp: le_imp_less_Suc length_dropWhile_le)

text \<open>\<open>text.strip()\<close>: whitespace removed at both ends.\<close>

definition py_strip :: "ustr \<Rightarrow> ustr" where
  "py_strip s = rev (dropWhile py_isspace (rev (dropWhile py_isspace s)))"

text \<open>\<open>re.sub(r'\s+', ' ', text)\<close>: every maximal whitespace run becomes one U+0020.\<close>

function sub_ws :: "ustr \<Rightarrow> ustr" where
  "sub_ws [] = []"
| "sub_ws (c # cs) =
     (if py_isspace c then 32 # sub_ws (dropWhile py_isspace cs) else c # sub_ws cs)"
  by pat_completeness auto
termination
  by (relation "measure length") (auto simp: le_imp_less_Suc length_dropWhile_le)

text \<open>
  \<open>re.sub(r'[...]', repl, text)\<close> for a one-character class and a literal replacement;
  with \<open>repl = ''\<close> this also is \<open>re.sub(r'[...]+', '', text)\<close>.
\<close>

definition sub_chars :: "(nat \<Rightarrow> bool) \<Rightarrow> ustr \<Rightarrow> ustr \<Rightarrow> ustr" where
  "sub_chars P repl s = concat (map (\<lambda>c. if P c then repl else [c]) s)"

text \<open>
  \<open>re.sub(r'(P)(Q)', r'\1 \2', text)\<close> for two one-character classes: matches are found
  left to right and do not overlap, so the scan resumes after the second character.
\<close>

fun sub_pair :: "(nat \<Rightarrow> bool) \<Rightarrow> (nat \<Rightarrow> bool) \<Rightarrow> ustr \<Rightarrow> ustr" where
  "sub_pair P Q (a # b # cs) =
     (if P a \<and> Q b then a # 32 # b # sub_pair P Q cs else a # sub_pair P Q (b # cs))"
| "sub_pair P Q cs = cs"

text \<open>\<open>re.sub(r'\.(?=\s)', ' ', text)\<close>: a period (U+002E) directly before whitespace.\<close>

fun sub_dot_lookahead :: "ustr \<Rightarrow> ustr" where
  "sub_dot_lookahead (c # d # cs) =
     (if c = 46 \<and> py_isspace d then 32 # sub_dot_lookahead (d # cs)
      else c # sub_dot_lookahead (d # cs))"
| "sub_dot_lookahead cs = cs"

text \<open>
  \<open>re.sub(r'\.$', '', text)\<close>: without \<open>re.MULTILINE\<close>, \<open>$\<close> matches at the end of the
  string and before a line feed (U+000A) that ends the string.
\<close>

fun sub_dot_end :: "ustr \<Rightarrow> ustr" where
  "sub_dot_end [] = []"
| "sub_dot_end (c # cs) =
     (if c = 46 \<and> (cs = [] \<or> cs = [10]) then cs else c # sub_dot_end cs)"

text \<open>\<open>re.sub(r'[k]{2,}', 'k', text)\<close>: a run of two or more \<open>k\<close> becomes one \<open>k\<close>.\<close>

fun sub_runs :: "nat \<Rightarrow> ustr \<Rightarrow> ustr" where
  "sub_runs k (c # d # cs) =
     (if c = k \<and> d = k then sub_runs k (d # cs) else c # sub_runs k (d # cs))"
| "sub_runs k cs = cs"

text \<open>
  \<open>re.sub(r'(P)(\s{2,})(Q)', r'\1 \3', text)\<close> for letter classes \<open>P\<close>, \<open>Q\<close> (no
  whitespace in \<open>Q\<close>, so the greedy \<open>\s{2,}\<close> must take the whole whitespace run).
\<close>

function sub_gap :: "(nat \<Rightarrow> bool) \<Rightarrow> (nat \<Rightarrow> bool) \<Rightarrow> ustr \<Rightarrow> ustr" where
  "sub_gap P Q [] = []"
| "sub_gap P Q (c # cs) =
     (case dropWhile py_isspace cs of
        [] \<Rightarrow> c # sub_gap P Q cs
      | d # ds \<Rightarrow>
          if P c \<and> 2 \<le> length (takeWhile py_isspace cs) \<and> Q d
          then c # 32 # d # sub_gap P Q ds else c # sub_gap P Q cs)"
  by pat_completeness auto
termination
proof (relation "measure (\<lambda>(P, Q, s). length s)")
  fix P Q :: "nat \<Rightarrow> bool" and c d :: nat and cs ds :: ustr
  assume "dropWhile py_isspace cs = d # ds"
  then have "Suc (length ds) \<le> length cs"
    using length_dropWhile_le [of py_isspace cs] by simp
  then show "((P, Q, ds), (P, Q, c # cs)) \<in> measure (\<lambda>(P, Q, s). length s)"
    by simp
qed simp_all

text \<open>
  \<open>re.sub(r'([\<dots>.!?])\s*([^\s])', r'\1 \2', text)\<close> with the danda U+0964, the period, \<open>!\<close>
  and \<open>?\<close>: the mark, the whitespace after it if any, and the next non-whitespace
  character, which the match consumes.
\<close>

definition pause_mark :: "nat \<Rightarrow> bool" where
  "pause_mark c = (c = 2404 \<or> c = 46 \<or> c = 33 \<or> c = 63)"

function sub_pause :: "ustr \<Rightarrow> ustr" where
  "sub_pause [] = []"
| "sub_pause (c # cs) =
     (case dropWhile py_isspace cs of
        [] \<Rightarrow> c # sub_pause cs
      | d # ds \<Rightarrow> if pause_mark c then c # 32 # d # sub_pause ds else c # sub_pause cs)"
  by pat_completeness auto
termination
proof (relation "measure length")
  fix c d :: nat and cs ds :: ustr
  assume "dropWhile py_isspace cs = d # ds"
  then have "Suc (length ds) \<le> length cs"
    using length_dropWhile_le [of py_isspace cs] by simp
  then show "(ds, c # cs) \<in> measure length"
    by simp
qed simp_all

section \<open>ScriptSegmenter: \<open>detect_text_language_segments\<close>\<close>

text \<open>
  \<open>hindi_pattern\<close> is the class U+0900..U+097F, \<open>english_pattern = [a-zA-Z]+\<close>, and the range
  of the spacing fixes runs from U+0905 to U+0939.
\<close>

definition devanagari :: "nat \<Rightarrow> bool" where
  "devanagari c = (2304 \<le> c \<and> c \<le> 2431)"

definition latin_letter :: "nat \<Rightarrow> bool" where
  "latin_letter c = ((97 \<le> c \<and> c \<le> 122) \<or> (65 \<le> c \<and> c \<le> 90))"

definition hindi_letter :: "nat \<Rightarrow> bool" where
  "hindi_letter c = (2309 \<le> c \<and> c \<le> 2361)"

text \<open>
  \<open>\w\<close> of a \<open>str\<close> pattern: the underscore and every alphanumeric code point. The
  alphanumeric table of the Unicode database beyond ASCII is the parameter \<open>uni\<close>.
\<close>

definition re_word :: "(nat \<Rightarrow> bool) \<Rightarrow> nat \<Rightarrow> bool" where
  "re_word uni c = (latin_letter c \<or> (48 \<le> c \<and> c \<le> 57) \<or> c = 95 \<or> uni c)"

text \<open>
  \<open>MultilingualVoiceCloner.detect_text_language_segments\<close> (inherited by the websocket
  cloner): punctuation is removed from the word before the two searches.
\<close>

definition ml_tag :: "(nat \<Rightarrow> bool) \<Rightarrow> ustr \<Rightarrow> string" where
  "ml_tag uni word =
     (let clean_word = filter (\<lambda>c. re_word uni c \<or> devanagari c) word
      in if list_ex devanagari clean_word then ''hi''
         else if list_ex latin_letter clean_word then ''en''
         else ''hi'')"

definition ml_detect_text_language_segments ::
    "(nat \<Rightarrow> bool) \<Rightarrow> ustr \<Rightarrow> (ustr \<times> string) list" where
  "ml_detect_text_language_segments uni s = map (\<lambda>word. (word, ml_tag uni word)) (py_split s)"

text \<open>\<open>FixedRealTimeHinglishVoiceCloner.detect_text_language_segments\<close>.\<close>

definition rt_tag :: "ustr \<Rightarrow> string" where
  "rt_tag word =
     (if list_ex devanagari word then ''hi''
      else if list_ex latin_letter word then ''en''
      else ''unknown'')"

definition rt_detect_text_language_segments :: "ustr \<Rightarrow> (ustr \<times> string) list" where
  "rt_detect_text_language_segments s = map (\<lambda>word. (word, rt_tag word)) (py_split s)"

text \<open>
  \<open>sum(1 for _, lang in segments if lang == "hi") / len(segments) if segments else 0\<close>.
  The quotient is kept exact. Python rounds it to a double and compares it with the
  doubles nearest to 0.1, 0.2, 0.3, 0.8 and 0.9; rounding is monotone and a quotient of
  token counts that differs from such a bound differs by at least \<open>1 / (10 * n)\<close>, so
  both comparisons agree for every text of fewer than \<open>10^15\<close> tokens.
\<close>

definition hindi_ratio :: "(ustr \<times> string) list \<Rightarrow> rat" where
  "hindi_ratio segments =
     (if segments = [] then 0
      else of_nat (length (filter (\<lambda>(w, lang). lang = ''hi'') segments))
             / of_nat (length segments))"

text \<open>\<open>primary_language = "hi" if hindi_ratio > 0.3 else "en"\<close>.\<close>

definition primary_language :: "rat \<Rightarrow> string" where
  "primary_language r = (if 3 / 10 < r then ''hi'' else ''en'')"

section \<open>TextCanonicalizer: \<open>optimize_text_for_voice_cloning\<close>\<close>

text \<open>
  \<open>MultilingualVoiceCloner.optimize_text_for_voice_cloning\<close>, statement by statement.
  The quick return tests the length of the argument as passed, before any
  normalisation. The quote class of the source is the concatenation of the literals
  \<open>r'["""'\<close> and \<open>'`]'\<close>, that is the double quote U+0022 and the backtick U+0060.
\<close>

definition ml_optimize_text_for_voice_cloning :: "(nat \<Rightarrow> bool) \<Rightarrow> ustr \<Rightarrow> ustr" where
  "ml_optimize_text_for_voice_cloning uni original_text =
     (if length original_text \<le> 20 then py_strip original_text
      else
        let text = sub_ws (py_strip original_text);
            segments = ml_detect_text_language_segments uni text;
            ratio = hindi_ratio segments;
            is_hinglish = (2 / 10 < ratio \<and> ratio < 8 / 10);
            text = sub_chars (\<lambda>c. c = 33 \<or> c = 2404 \<or> c = 63) [32] text;
            text = sub_chars (\<lambda>c. c = 44 \<or> c = 59 \<or> c = 58) [32] text;
            text = sub_dot_lookahead text;
            text = sub_dot_end text;
            text = sub_chars (\<lambda>c. c = 34 \<or> c = 96) [] text;
            text = sub_chars (\<lambda>c. c = 45 \<or> c = 8211 \<or> c = 8212) [32] text;
            text =
              (if is_hinglish
               then sub_gap hindi_letter latin_letter
                      (sub_gap latin_letter hindi_letter (sub_runs 46 (sub_runs 44 text)))
               else sub_pause (sub_runs 46 (sub_runs 2404 text)));
            text = sub_pair (\<lambda>c. c = 44 \<or> c = 46) (\<lambda>c. \<not> py_isspace c) text
        in sub_ws text)"

text \<open>
  \<open>WebSocketFixedHinglishCloner.optimize_text_for_voice_cloning\<close> and
  \<open>FixedRealTimeHinglishVoiceCloner.optimize_text_for_voice_cloning\<close> have the same
  body and differ in the segmenter \<open>self.detect_text_language_segments\<close> they call:
  no quick return, and the text changes only when the ratio is strictly between 0.1
  and 0.9.
\<close>

definition fixed_optimize_text ::
    "(ustr \<Rightarrow> (ustr \<times> string) list) \<Rightarrow> ustr \<Rightarrow> ustr" where
  "fixed_optimize_text detect original_text =
     (let text = sub_ws (py_strip original_text);
          segments = detect text;
          ratio = hindi_ratio segments
      in if 1 / 10 < ratio \<and> ratio < 9 / 10
         then
           let text = sub_chars (\<lambda>c. c = 33 \<or> c = 2404 \<or> c = 63) [] text;
               text = sub_pair hindi_letter latin_letter text;
               text = sub_pair latin_letter hindi_letter text
           in sub_ws (py_strip text)
         else text)"

definition ws_optimize_text_for_voice_cloning :: "(nat \<Rightarrow> bool) \<Rightarrow> ustr \<Rightarrow> ustr" where
  "ws_optimize_text_for_voice_cloning uni =
     fixed_optimize_text (ml_detect_text_language_segments uni)"

definition rt_optimize_text_for_voice_cloning :: "ustr \<Rightarrow> ustr" where
  "rt_optimize_text_for_voice_cloning = fixed_optimize_text rt_detect_text_language_segments"

text \<open>
  \<open>FixedRealTimeHinglishVoiceCloner._split_text_into_chunks\<close>:
  \<open>re.split(r'[.!?\<dots>]+', text)\<close> cuts at every maximal run of the four marks; each
  piece is stripped and the empty ones are dropped.
\<close>

function re_split_marks :: "ustr \<Rightarrow> ustr list" where
  "re_split_marks s =
     (case dropWhile (\<lambda>c. \<not> pause_mark c) s of
        [] \<Rightarrow> [s]
      | d # ds \<Rightarrow> takeWhile (\<lambda>c. \<not> pause_mark c) s # re_split_marks (dropWhile pause_mark ds))"
  by pat_completeness auto
termination
proof (relation "measure length")
  fix s ds :: ustr and d :: nat
  assume "dropWhile (\<lambda>c. \<not> pause_mark c) s = d # ds"
  then have "Suc (length ds) \<le> length s"
    using length_dropWhile_le [of "\<lambda>c. \<not> pause_mark c" s] by simp
  moreover have "length (dropWhile pause_mark ds) \<le> length ds"
    by (rule length_dropWhile_le)
  ultimately show "(dropWhile pause_mark ds, s) \<in> measure length"
    by simp
qed simp

declare re_split_marks.simps [simp del]

definition split_text_into_chunks :: "ustr \<Rightarrow> ustr list" where
  "split_text_into_chunks s = filter (\<lambda>sentence. sentence \<noteq> []) (map py_strip (re_split_marks s))"

text \<open>
  Two predicates used to state what the substitutions achieve: \<open>adjacent P Q s\<close> holds
  when somewhere in \<open>s\<close> a character of \<open>P\<close> is directly followed by one of \<open>Q\<close>, and
  \<open>trimmed t\<close> when \<open>t\<close> neither starts nor ends with whitespace. \<open>spaced\<close> names the tail
  of the mixed branch of \<open>fixed_optimize_text\<close>.
\<close>

fun adjacent :: "(nat \<Rightarrow> bool) \<Rightarrow> (nat \<Rightarrow> bool) \<Rightarrow> ustr \<Rightarrow> bool" where
  "adjacent P Q (a # b # cs) = ((P a \<and> Q b) \<or> adjacent P Q (b # cs))"
| "adjacent P Q cs = False"

definition trimmed :: "ustr \<Rightarrow> bool" where
  "trimmed t = (t = [] \<or> (\<not> py_isspace (hd t) \<and> \<not> py_isspace (last t)))"

definition spaced :: "ustr \<Rightarrow> ustr" where
  "spaced v =
     sub_ws (py_strip (sub_pair latin_letter hindi_letter (sub_pair hindi_letter latin_letter v)))"

section \<open>Audio: arrays of samples and the library calls around them\<close>

text \<open>
  A waveform is a list of samples. In this section samples are real numbers: the
  arithmetic of the source is kept exact, so \<open>astype(np.float32)\<close> is the identity
  here; the rounding of \<open>float32\<close> and \<open>float64\<close> is the subject of a later section,
  for the two methods whose bound on the peak depends on it. An exception is a value of \<open>pyexc\<close> (all
  of them subclasses of \<open>Exception\<close>), and a computation that may raise returns
  \<open>pyexc + 'a\<close> with \<open>Inl\<close> for the exception.
\<close>

datatype pyexc =
  TypeError | AttributeError | ValueError | ZeroDivisionError | KeyError | IndexError
  | RuntimeError

type_synonym audio = "real list"

text \<open>
  Calls into librosa, scipy and numpy whose result is not determined by the source:
  \<open>librosa.effects.trim(audio, top_db)[0]\<close>, \<open>signal.filtfilt(b, a, audio)\<close> with the
  second-order high-pass of \<open>signal.butter\<close>, \<open>np.percentile(audio, q)\<close> and
  \<open>librosa.resample(audio, orig_sr, target_sr)\<close>. Each may raise.
\<close>

record libs =
  lib_trim :: "nat \<Rightarrow> audio \<Rightarrow> pyexc + audio"
  lib_filtfilt :: "audio \<Rightarrow> pyexc + audio"
  lib_percentile :: "audio \<Rightarrow> nat \<Rightarrow> pyexc + real"
  lib_resample :: "nat \<Rightarrow> nat \<Rightarrow> audio \<Rightarrow> pyexc + audio"

text \<open>
  The numpy operations the source uses. \<open>np.max\<close> of an empty array raises
  \<open>ValueError\<close>; \<open>np.mean\<close> of an empty array is \<open>nan\<close> with a warning, which no
  caller below uses on an element.
\<close>

definition np_mean :: "audio \<Rightarrow> real" where
  "np_mean a = sum_list a / real (length a)"

definition np_abs :: "audio \<Rightarrow> audio" where
  "np_abs a = map abs a"

definition np_max :: "audio \<Rightarrow> pyexc + real" where
  "np_max a = (case a of [] \<Rightarrow> Inl ValueError | x # xs \<Rightarrow> Inr (fold max xs x))"

definition np_clip :: "audio \<Rightarrow> real \<Rightarrow> real \<Rightarrow> audio" where
  "np_clip a lo hi = map (\<lambda>x. min (max x lo) hi) a"

definition np_linspace :: "real \<Rightarrow> real \<Rightarrow> nat \<Rightarrow> audio" where
  "np_linspace start stop n =
     (if n = 1 then [start]
      else map (\<lambda>i. start + (stop - start) * real i / real (n - 1)) [0..<n])"

text \<open>\<open>audio - np.mean(audio)\<close> and \<open>audio / peak * k\<close>.\<close>

definition remove_dc :: "audio \<Rightarrow> audio" where
  "remove_dc a = map (\<lambda>x. x - np_mean a) a"

definition rescale :: "real \<Rightarrow> real \<Rightarrow> audio \<Rightarrow> audio" where
  "rescale peak k a = map (\<lambda>x. x / peak * k) a"

text \<open>
  In-place multiplication of a slice, \<open>audio[:k] *= f\<close> and \<open>audio[-k:] *= f\<close>. The
  shapes must agree, or \<open>f\<close> has one element; otherwise numpy raises \<open>ValueError\<close>.
  \<open>audio[-0:]\<close> is the whole array.
\<close>

definition imul :: "audio \<Rightarrow> audio \<Rightarrow> pyexc + audio" where
  "imul a f =
     (if length f = length a then Inr (map2 (*) a f)
      else if length f = 1 then Inr (map (\<lambda>x. x * hd f) a)
      else Inl ValueError)"

definition imul_head :: "nat \<Rightarrow> audio \<Rightarrow> audio \<Rightarrow> pyexc + audio" where
  "imul_head k f a =
     (case imul (take k a) f of Inl e \<Rightarrow> Inl e | Inr h \<Rightarrow> Inr (h @ drop k a))"

definition imul_tail :: "nat \<Rightarrow> audio \<Rightarrow> audio \<Rightarrow> pyexc + audio" where
  "imul_tail k f a =
     (let i = (if k = 0 then 0 else length a - k)
      in case imul (drop i a) f of Inl e \<Rightarrow> Inl e | Inr t \<Rightarrow> Inr (take i a @ t))"

subsection \<open>Reference audio\<close>

text \<open>
  The normalisation of the reference in \<open>WebSocketFixedHinglishCloner.clone_voice_multilingual\<close>
  and \<open>clone_voice_realtime\<close>:
  \<open>if np.max(np.abs(ref)) > 0: ref = ref / np.max(np.abs(ref)) * 0.8\<close>.
\<close>

definition normalize_reference :: "audio \<Rightarrow> pyexc + audio" where
  "normalize_reference reference_audio =
     (case np_max (np_abs reference_audio) of
        Inl e \<Rightarrow> Inl e
      | Inr peak \<Rightarrow>
          Inr (if 0 < peak then rescale peak (8 / 10) reference_audio else reference_audio))"

text \<open>
  \<open>MultilingualVoiceCloner.preprocess_audio\<close>, from the array and rate that
  \<open>librosa.load\<close> read to the array that \<open>sf.write\<close> stores. Every exception is re-raised.
\<close>

definition ml_preprocess_audio :: "libs \<Rightarrow> nat \<Rightarrow> audio \<Rightarrow> pyexc + audio" where
  "ml_preprocess_audio L sr audio0 =
     (case (if sr \<noteq> 22050 then lib_resample L sr 22050 audio0 else Inr audio0) of
        Inl e \<Rightarrow> Inl e
      | Inr audio1 \<Rightarrow>
          (case np_max (np_abs audio1) of
             Inl e \<Rightarrow> Inl e
           | Inr peak \<Rightarrow>
               lib_trim L 30 (if 0 < peak then rescale peak (8 / 10) audio1 else audio1)))"

subsection \<open>Sanitizers\<close>

text \<open>
  Each sanitizer runs in \<open>try: \<dots> except Exception: return audio\<close>, where \<open>audio\<close> is the
  local variable the steps reassign: the handler returns its value at the moment of
  the failure. The result type keeps the exception channel, so that "does not raise"
  is a statement about the result.

  \<open>WebSocketFixedHinglishCloner._minimal_audio_cleanup\<close>; the argument may be \<open>None\<close>.
\<close>

definition ws_minimal_audio_cleanup :: "libs \<Rightarrow> audio option \<Rightarrow> pyexc + audio option" where
  "ws_minimal_audio_cleanup L arg =
     (case arg of
        None \<Rightarrow> Inr None
      | Some audio0 \<Rightarrow>
          if length audio0 = 0 then Inr (Some audio0)
          else
            (case lib_trim L 20 audio0 of
               Inl e \<Rightarrow> Inr (Some audio0)
             | Inr audio1 \<Rightarrow>
                 (case np_max (np_abs audio1) of
                    Inl e \<Rightarrow> Inr (Some audio1)
                  | Inr peak \<Rightarrow>
                      let audio2 = (if 0 < peak then rescale peak (95 / 100) audio1 else audio1)
                      in if 1000 < length audio2
                         then
                           let fade_samples = min 22 (length audio2 div 100)
                           in (case imul_head fade_samples (np_linspace 0 1 fade_samples) audio2 of
                                 Inl e \<Rightarrow> Inr (Some audio2)
                               | Inr audio3 \<Rightarrow>
                                   (case imul_tail fade_samples (np_linspace 1 0 fade_samples) audio3 of
                                      Inl e \<Rightarrow> Inr (Some audio3)
                                    | Inr audio4 \<Rightarrow> Inr (Some audio4)))
                         else Inr (Some audio2))))"

text \<open>
  \<open>FixedRealTimeHinglishVoiceCloner._minimal_audio_cleanup\<close>. In this file the line
  \<open>if len(audio) > 1000:\<close> is the tail of a comment, so the fade belongs to the body of
  \<open>if np.max(np.abs(audio)) > 0:\<close> and runs for every length.
\<close>

definition rt_minimal_audio_cleanup :: "libs \<Rightarrow> audio option \<Rightarrow> pyexc + audio option" where
  "rt_minimal_audio_cleanup L arg =
     (case arg of
        None \<Rightarrow> Inr None
      | Some audio0 \<Rightarrow>
          if length audio0 = 0 then Inr (Some audio0)
          else
            (case lib_trim L 20 audio0 of
               Inl e \<Rightarrow> Inr (Some audio0)
             | Inr audio1 \<Rightarrow>
                 (case np_max (np_abs audio1) of
                    Inl e \<Rightarrow> Inr (Some audio1)
                  | Inr peak \<Rightarrow>
                      if 0 < peak
                      then
                        let audio2 = rescale peak (95 / 100) audio1;
                            fade_samples = min 22 (length audio2 div 100)
                        in (case imul_head fade_samples (np_linspace 0 1 fade_samples) audio2 of
                              Inl e \<Rightarrow> Inr (Some audio2)
                            | Inr audio3 \<Rightarrow>
                                (case imul_tail fade_samples (np_linspace 1 0 fade_samples) audio3 of
                                   Inl e \<Rightarrow> Inr (Some audio3)
                                 | Inr audio4 \<Rightarrow> Inr (Some audio4)))
                      else Inr (Some audio1))))"

text \<open>
  \<open>MultilingualVoiceCloner._clean_audio_artifacts\<close>. The windows have
  \<open>int(0.02 * 22050) = 441\<close> samples and start at \<open>range(0, len(audio) - 441, 220)\<close>; the
  fade has \<open>min(int(0.03 * 22050), len(audio) // 15)\<close> samples, with
  \<open>int(0.03 * 22050) = 661\<close>.
\<close>

definition frame_energy :: "audio \<Rightarrow> real list" where
  "frame_energy a =
     map (\<lambda>j. sum_list (map (\<lambda>x. x * x) (take 441 (drop (220 * j) a))))
       [0..<(length a - 441 + 219) div 220]"

definition trim_to_speech :: "audio \<Rightarrow> real list \<Rightarrow> real \<Rightarrow> audio" where
  "trim_to_speech a energy energy_threshold =
     (let valid_frames = filter (\<lambda>j. energy_threshold < energy ! j) [0..<length energy]
      in if 0 < length valid_frames
         then
           let start_idx = hd valid_frames * 441 div 2;
               end_idx = min ((last valid_frames + 2) * 441 div 2) (length a)
           in drop start_idx (take end_idx a)
         else a)"

definition ml_clean_audio_artifacts :: "libs \<Rightarrow> audio \<Rightarrow> pyexc + audio" where
  "ml_clean_audio_artifacts L audio0 =
     (let audio1 = remove_dc audio0
      in case lib_filtfilt L audio1 of
           Inl e \<Rightarrow> Inr audio1
         | Inr audio2 \<Rightarrow>
             let energy = frame_energy audio2
             in (case np_max energy of
                   Inl e \<Rightarrow> Inr audio2
                 | Inr max_energy \<Rightarrow>
                     let audio3 = trim_to_speech audio2 energy (max_energy * (1 / 100))
                     in (case lib_percentile L (np_abs audio3) 99 of
                           Inl e \<Rightarrow> Inr audio3
                         | Inr q99 \<Rightarrow>
                             let audio4 = np_clip audio3 (- q99) q99;
                                 fade_samples = min 661 (length audio4 div 15)
                             in if 0 < fade_samples
                                then
                                  (case imul_head fade_samples
                                          (map (\<lambda>t. t ^ 2) (np_linspace 0 1 fade_samples)) audio4 of
                                     Inl e \<Rightarrow> Inr audio4
                                   | Inr audio5 \<Rightarrow>
                                       (case imul_tail fade_samples
                                               (map (\<lambda>t. t ^ 2) (np_linspace 1 0 fade_samples)) audio5 of
                                          Inl e \<Rightarrow> Inr audio5
                                        | Inr audio6 \<Rightarrow> Inr audio6))
                                else Inr audio4)))"

text \<open>
  \<open>MultilingualVoiceCloner._minimal_final_cleanup\<close>. Its handler does not return the
  variable as it is: a non-empty waveform with a positive peak is rescaled to the
  peak 0.95 first.
\<close>

definition minimal_final_handler :: "audio \<Rightarrow> pyexc + audio" where
  "minimal_final_handler a =
     (if 0 < length a
      then (case np_max (np_abs a) of
              Inl e \<Rightarrow> Inl e
            | Inr peak \<Rightarrow> if 0 < peak then Inr (rescale peak (95 / 100) a) else Inr a)
      else Inr a)"

definition ml_minimal_final_cleanup :: "libs \<Rightarrow> audio \<Rightarrow> pyexc + audio" where
  "ml_minimal_final_cleanup L audio0 =
     (if length audio0 = 0 then Inr audio0
      else
        let audio1 = remove_dc audio0
        in case np_max (np_abs audio1) of
             Inl e \<Rightarrow> minimal_final_handler audio1
           | Inr peak \<Rightarrow>
               let audio2 = (if 0 < peak then rescale peak (95 / 100) audio1 else audio1)
               in (case lib_trim L 25 audio2 of
                     Inl e \<Rightarrow> minimal_final_handler audio2
                   | Inr audio3 \<Rightarrow>
                       if 220 < length audio3
                       then
                         (case imul_head 110 (np_linspace 0 1 110) audio3 of
                            Inl e \<Rightarrow> minimal_final_handler audio3
                          | Inr audio4 \<Rightarrow>
                              (case imul_tail 110 (np_linspace 1 0 110) audio4 of
                                 Inl e \<Rightarrow> minimal_final_handler audio4
                               | Inr audio5 \<Rightarrow> Inr audio5))
                       else Inr audio3))"

text \<open>
  The voice features a cloner receives: \<open>voice_features["audio_data"]\<close> (a \<open>KeyError\<close>
  when absent) and the two entries read with \<open>voice_features.get(key, default)\<close>.
\<close>

record voice_features =
  audio_data :: "audio option"
  rms_energy :: "real option"
  spectral_centroid :: "real option"

text \<open>
  \<open>MultilingualVoiceCloner._enhance_audio_quality\<close>. For an empty array the mean is
  \<open>nan\<close> and the test \<open>current_rms > 0\<close> is false.
\<close>

definition ml_enhance_audio_quality :: "voice_features \<Rightarrow> audio \<Rightarrow> pyexc + audio" where
  "ml_enhance_audio_quality vf audio0 =
     (let target_rms = (case rms_energy vf of None \<Rightarrow> 1 / 10 | Some r \<Rightarrow> r);
          current_rms = sqrt (np_mean (map (\<lambda>x. x * x) audio0));
          audio1 = (if audio0 \<noteq> [] \<and> 0 < current_rms
                    then map (\<lambda>x. x * (target_rms / current_rms)) audio0 else audio0);
          target_centroid = (case spectral_centroid vf of None \<Rightarrow> 2000 | Some c \<Rightarrow> c);
          audio2 = (if target_centroid < 1500 then map (\<lambda>x. x * (95 / 100)) audio1
                    else if 3000 < target_centroid then map (\<lambda>x. x * (105 / 100)) audio1
                    else audio1)
      in Inr (np_clip audio2 (- 1) 1))"

text \<open>
  A library for concrete runs: \<open>filtfilt\<close> rejects an input of at most
  \<open>padlen = 3 * max(len(a), len(b)) = 9\<close> samples with \<open>ValueError\<close>, as scipy does for
  the second-order filter, and \<open>trim\<close> rejects every input; the other calls return
  their argument.
\<close>

definition strict_libs :: libs where
  "strict_libs =
     \<lparr> lib_trim = (\<lambda>top_db a. Inl ValueError),
       lib_filtfilt = (\<lambda>a. if length a \<le> 9 then Inl ValueError else Inr a),
       lib_percentile = (\<lambda>a q. Inr 1),
       lib_resample = (\<lambda>orig target a. Inr a) \<rparr>"

text \<open>
  \<open>peak_normalized a\<close> is \<open>a\<close> after
  \<open>peak = np.max(np.abs(a)); if peak > 0: a = a / peak * 0.95\<close>, for a non-empty \<open>a\<close>.
\<close>

definition peak_normalized :: "audio \<Rightarrow> audio" where
  "peak_normalized a =
     (case np_max (np_abs a) of
        Inl e \<Rightarrow> a
      | Inr peak \<Rightarrow> if 0 < peak then rescale peak (95 / 100) a else a)"

section \<open>SynthesisOrchestrator: the three synthesis paths\<close>

text \<open>
  What the claims observe of a run: the files that exist (by path) and the calls made
  to the external Synthesizer \<open>self.tts.tts\<close>, in order. A call is its keyword
  arguments; \<open>other_kwargs\<close> lists the names of the arguments beyond the four named
  ones. The Synthesizer is opaque and need not be deterministic: \<open>synth n c\<close> is the
  outcome of the \<open>n\<close>-th call of a run, made with the arguments \<open>c\<close>.
\<close>

record tts_call =
  call_text :: ustr
  speaker_wav :: string
  language :: string
  split_sentences :: bool
  other_kwargs :: "string list"

record engine =
  load_error :: "pyexc option"
  has_model :: bool
  synth :: "nat \<Rightarrow> tts_call \<Rightarrow> pyexc + audio"

record world =
  files :: "string set"
  calls :: "tts_call list"

definition invoke_tts :: "engine \<Rightarrow> tts_call \<Rightarrow> world \<Rightarrow> world \<times> (pyexc + audio)" where
  "invoke_tts E c w = (w\<lparr>calls := calls w @ [c]\<rparr>, synth E (length (calls w)) c)"

text \<open>\<open>sf.write(path, \<dots>)\<close> and \<open>if os.path.exists(path): os.remove(path)\<close>.\<close>

definition sf_write :: "string \<Rightarrow> world \<Rightarrow> world" where
  "sf_write path w = w\<lparr>files := insert path (files w)\<rparr>"

definition remove_if_exists :: "string \<Rightarrow> world \<Rightarrow> world" where
  "remove_if_exists path w = (if path \<in> files w then w\<lparr>files := files w - {path}\<rparr> else w)"

text \<open>
  The pattern all three paths share,
  \<open>sf.write(temp_speaker_path, \<dots>); try: body finally: if exists: remove\<close>:
  whatever the body returns or raises, the \<open>finally\<close> runs on the world it left.
\<close>

definition with_speaker_file :: "string \<Rightarrow> (world \<Rightarrow> world \<times> 'r) \<Rightarrow> world \<Rightarrow> world \<times> 'r" where
  "with_speaker_file temp_speaker_path body w =
     (case body (sf_write temp_speaker_path w) of
        (w', result) \<Rightarrow> (remove_if_exists temp_speaker_path w', result))"

subsection \<open>Single shot: \<open>MultilingualVoiceCloner.clone_voice_multilingual\<close>\<close>

text \<open>
  The dictionary \<open>tts_params\<close> of the single-shot path, and the keyword arguments of
  the one call the websocket and the streaming path make.
\<close>

definition ml_tts_params :: "ustr \<Rightarrow> string \<Rightarrow> string \<Rightarrow> tts_call" where
  "ml_tts_params optimized_text temp_speaker_path primary =
     \<lparr> call_text = optimized_text, speaker_wav = temp_speaker_path, language = primary,
       split_sentences = False, other_kwargs = [''speed'', ''do_trim'', ''use_microphone''] \<rparr>"

definition plain_tts_params :: "ustr \<Rightarrow> string \<Rightarrow> string \<Rightarrow> tts_call" where
  "plain_tts_params text temp_speaker_path primary =
     \<lparr> call_text = text, speaker_wav = temp_speaker_path, language = primary,
       split_sentences = False, other_kwargs = [] \<rparr>"

text \<open>
  The body of the inner \<open>try\<close>: with \<open>hasattr(self.tts.tts, 'model')\<close> the call carries
  four more arguments and, on \<open>TypeError\<close> or \<open>AttributeError\<close>, is repeated with
  \<open>tts_params\<close> alone.
\<close>

definition ml_synthesize :: "engine \<Rightarrow> tts_call \<Rightarrow> world \<Rightarrow> world \<times> (pyexc + audio)" where
  "ml_synthesize E tts_params w =
     (if has_model E
      then
        (case invoke_tts E
                (tts_params\<lparr>other_kwargs := other_kwargs tts_params
                     @ [''temperature'', ''length_penalty'', ''repetition_penalty'', ''use_deepspeed'']\<rparr>) w of
           (w1, Inl e) \<Rightarrow>
             if e = TypeError \<or> e = AttributeError then invoke_tts E tts_params w1 else (w1, Inl e)
         | (w1, Inr generated_audio) \<Rightarrow> (w1, Inr generated_audio))
      else invoke_tts E tts_params w)"

text \<open>The processing after the inner \<open>try\<close>, up to the array that is saved.\<close>

definition ml_postprocess ::
    "libs \<Rightarrow> voice_features \<Rightarrow> bool \<Rightarrow> ustr \<Rightarrow> audio \<Rightarrow> pyexc + audio" where
  "ml_postprocess L vf enhance_quality optimized_text generated_audio =
     (case ml_clean_audio_artifacts L generated_audio of
        Inl e \<Rightarrow> Inl e
      | Inr cleaned \<Rightarrow>
          (case (if enhance_quality \<and> length optimized_text < 100
                 then ml_enhance_audio_quality vf cleaned else Inr cleaned) of
             Inl e \<Rightarrow> Inl e
           | Inr enhanced \<Rightarrow> ml_minimal_final_cleanup L enhanced))"

text \<open>
  Lines 257 to 305: the speaker file is written, the Synthesizer is called inside
  \<open>try\<close>, and the \<open>finally\<close> removes the file.
\<close>

definition ml_speaker_run ::
    "engine \<Rightarrow> (nat \<Rightarrow> bool) \<Rightarrow> ustr \<Rightarrow> world \<Rightarrow> world \<times> (pyexc + audio)" where
  "ml_speaker_run E uni text w =
     (let optimized_text = ml_optimize_text_for_voice_cloning uni text;
          segments = ml_detect_text_language_segments uni text;
          primary = primary_language (hindi_ratio segments);
          temp_speaker_path = ''temp_speaker_multilingual.wav'';
          tts_params = ml_tts_params optimized_text temp_speaker_path primary
      in with_speaker_file temp_speaker_path (ml_synthesize E tts_params) w)"

text \<open>
  The whole method. The ratio is computed without the guard for an empty
  segmentation here (line 242). The outer handler prints and re-raises. The result is
  the world after the run and the returned path or the exception raised.
\<close>

definition ml_clone_voice_multilingual ::
    "engine \<Rightarrow> libs \<Rightarrow> (nat \<Rightarrow> bool) \<Rightarrow> ustr \<Rightarrow> voice_features \<Rightarrow> string \<Rightarrow> bool \<Rightarrow> world
       \<Rightarrow> world \<times> (pyexc + string)" where
  "ml_clone_voice_multilingual E L uni text vf output_path enhance_quality w =
     (case load_error E of
        Some e \<Rightarrow> (w, Inl e)
      | None \<Rightarrow>
          let optimized_text = ml_optimize_text_for_voice_cloning uni text;
              segments = ml_detect_text_language_segments uni text
          in if segments = [] then (w, Inl ZeroDivisionError)
             else
               (case audio_data vf of
                  None \<Rightarrow> (w, Inl KeyError)
                | Some reference_audio \<Rightarrow>
                    (case ml_speaker_run E uni text w of
                       (w1, Inl e) \<Rightarrow> (w1, Inl e)
                     | (w1, Inr generated_audio) \<Rightarrow>
                         (case ml_postprocess L vf enhance_quality optimized_text generated_audio of
                            Inl e \<Rightarrow> (w1, Inl e)
                          | Inr final_audio \<Rightarrow> (sf_write output_path w1, Inr output_path)))))"

subsection \<open>Websocket: \<open>WebSocketFixedHinglishCloner.clone_voice_multilingual\<close>\<close>

text \<open>Lines 143 to 169: language selection, speaker file, the call, the \<open>finally\<close>.\<close>

definition ws_speaker_run ::
    "engine \<Rightarrow> (nat \<Rightarrow> bool) \<Rightarrow> ustr \<Rightarrow> world \<Rightarrow> world \<times> (pyexc + audio)" where
  "ws_speaker_run E uni text w =
     (let optimized_text = ws_optimize_text_for_voice_cloning uni text;
          segments = ml_detect_text_language_segments uni text;
          primary = primary_language (hindi_ratio segments);
          temp_speaker_path = ''temp_speaker_websocket.wav'';
          tts_params = plain_tts_params optimized_text temp_speaker_path primary
      in with_speaker_file temp_speaker_path (invoke_tts E tts_params) w)"

definition ws_clone_voice_multilingual ::
    "engine \<Rightarrow> libs \<Rightarrow> (nat \<Rightarrow> bool) \<Rightarrow> ustr \<Rightarrow> voice_features \<Rightarrow> string \<Rightarrow> world
       \<Rightarrow> world \<times> (pyexc + string)" where
  "ws_clone_voice_multilingual E L uni text vf output_path w =
     (case load_error E of
        Some e \<Rightarrow> (w, Inl e)
      | None \<Rightarrow>
          (case audio_data vf of
             None \<Rightarrow> (w, Inl KeyError)
           | Some reference_audio0 \<Rightarrow>
               (case normalize_reference reference_audio0 of
                  Inl e \<Rightarrow> (w, Inl e)
                | Inr reference_audio \<Rightarrow>
                    (case ws_speaker_run E uni text w of
                       (w1, Inl e) \<Rightarrow> (w1, Inl e)
                     | (w1, Inr generated_audio) \<Rightarrow>
                         (case ws_minimal_audio_cleanup L (Some generated_audio) of
                            Inl e \<Rightarrow> (w1, Inl e)
                          | Inr None \<Rightarrow> (w1, Inl TypeError)
                          | Inr (Some final_audio) \<Rightarrow>
                              (sf_write output_path w1, Inr output_path))))))"

subsection \<open>Streaming: \<open>FixedRealTimeHinglishVoiceCloner.clone_voice_realtime\<close>\<close>

text \<open>
  The method is an asynchronous generator, driven from outside. At
  \<open>await progress_callback(\<dots>)\<close> and at \<open>await asyncio.sleep(0.02)\<close> the awaited call
  returns, raises, or the task is cancelled there. At \<open>yield\<close> the consumer takes the
  chunk and either resumes the generator or closes it; closing (\<open>aclose()\<close>, which is
  also what the event loop does to a generator that was abandoned unfinished) raises
  \<open>GeneratorExit\<close> at the \<open>yield\<close>. A run ends by completing, by an exception, by
  cancellation or by being closed.
\<close>

datatype awaited = Done | Throws pyexc | Cancel

datatype consumer = Resume | Close

datatype ending = Completed | Raised pyexc | Cancelled | Closed

record driver =
  progress_callback :: "(nat \<Rightarrow> awaited) option"
  at_yield :: "nat \<Rightarrow> consumer"
  at_sleep :: "nat \<Rightarrow> awaited"

text \<open>
  \<open>(generated_audio * 32767).astype(np.int16)\<close>: the cast drops the fraction and keeps
  the low 16 bits of the integer as a signed number, so a product outside the 16-bit
  range wraps around, \<open>65534\<close> becoming \<open>-2\<close>. (Beyond the range of a 32-bit integer
  the conversion is the processor's; the wrap is written out for every product.)
\<close>

definition to_int16 :: "audio \<Rightarrow> int list" where
  "to_int16 a =
     map (\<lambda>x. let n = (if 0 \<le> x then \<lfloor>x * 32767\<rfloor> else \<lceil>x * 32767\<rceil>)
              in (n + 32768) mod 65536 - 32768) a"

text \<open>The \<open>for i, chunk in enumerate(text_chunks)\<close> loop inside the inner \<open>try\<close>.\<close>

fun rt_stream ::
    "engine \<Rightarrow> libs \<Rightarrow> driver \<Rightarrow> string \<Rightarrow> string \<Rightarrow> (nat \<times> ustr) list \<Rightarrow> world
       \<Rightarrow> world \<times> int list list \<times> ending" where
  "rt_stream E L D temp_speaker_path primary [] w = (w, [], Completed)"
| "rt_stream E L D temp_speaker_path primary ((i, chunk) # rest) w =
     (if py_strip chunk = [] then rt_stream E L D temp_speaker_path primary rest w
      else
        (case (case progress_callback D of None \<Rightarrow> Done | Some callback \<Rightarrow> callback i) of
           Throws e \<Rightarrow> (w, [], Raised e)
         | Cancel \<Rightarrow> (w, [], Cancelled)
         | Done \<Rightarrow>
             (case invoke_tts E (plain_tts_params chunk temp_speaker_path primary) w of
                (w1, Inl e) \<Rightarrow> (w1, [], Raised e)
              | (w1, Inr generated_audio) \<Rightarrow>
                  (case rt_minimal_audio_cleanup L (Some generated_audio) of
                     Inl e \<Rightarrow> (w1, [], Raised e)
                   | Inr None \<Rightarrow> (w1, [], Raised TypeError)
                   | Inr (Some cleaned) \<Rightarrow>
                       (case at_yield D i of
                          Close \<Rightarrow> (w1, [to_int16 cleaned], Closed)
                        | Resume \<Rightarrow>
                            (case at_sleep D i of
                               Throws e \<Rightarrow> (w1, [to_int16 cleaned], Raised e)
                             | Cancel \<Rightarrow> (w1, [to_int16 cleaned], Cancelled)
                             | Done \<Rightarrow>
                                 (case rt_stream E L D temp_speaker_path primary rest w1 of
                                    (w2, chunks, ending) \<Rightarrow>
                                      (w2, to_int16 cleaned # chunks, ending))))))))"

text \<open>
  The name of the speaker file, \<open>f"temp_speaker_realtime_{hash(text) % 10000}.wav"\<close>:
  \<open>hash\<close> is Python's string hash, a parameter, and \<open>decimal\<close> prints a number.
\<close>

function decimal :: "nat \<Rightarrow> string" where
  "decimal n =
     (if n < 10 then [''0123456789'' ! n] else decimal (n div 10) @ [''0123456789'' ! (n mod 10)])"
  by pat_completeness auto
termination
  by (relation "measure id") auto

declare decimal.simps [simp del]

definition rt_temp_speaker_path :: "(ustr \<Rightarrow> nat) \<Rightarrow> ustr \<Rightarrow> string" where
  "rt_temp_speaker_path hash text =
     ''temp_speaker_realtime_'' @ decimal (hash text mod 10000) @ ''.wav''"

text \<open>
  The whole generator: the world when it has ended, the chunks it yielded, and how it
  ended. The \<open>finally\<close> of the inner \<open>try\<close> runs on every ending of the loop.
\<close>

definition rt_clone_voice_realtime ::
    "engine \<Rightarrow> libs \<Rightarrow> driver \<Rightarrow> (ustr \<Rightarrow> nat) \<Rightarrow> ustr \<Rightarrow> voice_features \<Rightarrow> world
       \<Rightarrow> world \<times> int list list \<times> ending" where
  "rt_clone_voice_realtime E L D hash text vf w =
     (case load_error E of
        Some e \<Rightarrow> (w, [], Raised e)
      | None \<Rightarrow>
          let optimized_text = rt_optimize_text_for_voice_cloning text
          in (case audio_data vf of
                None \<Rightarrow> (w, [], Raised KeyError)
              | Some reference_audio0 \<Rightarrow>
                  (case normalize_reference reference_audio0 of
                     Inl e \<Rightarrow> (w, [], Raised e)
                   | Inr reference_audio \<Rightarrow>
                       let segments = rt_detect_text_language_segments text;
                           primary = primary_language (hindi_ratio segments);
                           text_chunks = split_text_into_chunks optimized_text;
                           temp_speaker_path = rt_temp_speaker_path hash text
                       in with_speaker_file temp_speaker_path
                            (rt_stream E L D temp_speaker_path primary
                               (zip [0..<length text_chunks] text_chunks)) w)))"

text \<open>The calls a run added to the trace.\<close>

definition new_calls :: "world \<Rightarrow> world \<Rightarrow> tts_call list" where
  "new_calls w w' = drop (length (calls w)) (calls w')"

text \<open>
  \<open>only_unsplit_calls w w'\<close>: the trace of \<open>w'\<close> is the trace of \<open>w\<close> followed by calls
  that all pass \<open>split_sentences = False\<close>.
\<close>

definition only_unsplit_calls :: "world \<Rightarrow> world \<Rightarrow> bool" where
  "only_unsplit_calls w w' =
     (\<exists>cs. calls w' = calls w @ cs \<and> list_all (\<lambda>c. \<not> split_sentences c) cs)"

text \<open>
  Concrete surroundings for runs: a world with no file and no call yet; an engine
  whose first call raises \<open>TypeError\<close> and whose later calls return two samples, and one
  that always returns them; voice features holding a short reference; and a consumer
  that closes the stream at the first chunk.
\<close>

definition fresh_world :: world where
  "fresh_world = \<lparr> files = {}, calls = [] \<rparr>"

definition retry_engine :: engine where
  "retry_engine =
     \<lparr> load_error = None, has_model = True,
       synth = (\<lambda>n c. if n = 0 then Inl TypeError else Inr [1 / 2, - (1 / 2)]) \<rparr>"

definition steady_engine :: engine where
  "steady_engine =
     \<lparr> load_error = None, has_model = False, synth = (\<lambda>n c. Inr [1 / 2, - (1 / 2)]) \<rparr>"

definition sample_features :: voice_features where
  "sample_features =
     \<lparr> audio_data = Some [1 / 2, - (1 / 4)], rms_energy = None, spectral_centroid = None \<rparr>"

definition closing_driver :: driver where
  "closing_driver =
     \<lparr> progress_callback = None, at_yield = (\<lambda>i. Close), at_sleep = (\<lambda>i. Done) \<rparr>"

section \<open>Rounded arithmetic: the peak of the sanitized audio\<close>

text \<open>
  The bound on the samples that \<open>_clean_audio_artifacts\<close> and \<open>_final_audio_cleanup\<close>
  return is a statement about floating-point numbers. For it the two methods are
  modelled a second time, now with the rounding of every operation.

  A floating-point value is a finite real number, an infinity or \<open>nan\<close>; the two zeros
  are one value. \<open>fl dt x\<close> is the number of the binary format \<open>dt\<close> nearest to the
  real \<open>x\<close>, a tie going to the even significand: \<open>float32\<close> has 24 significant bits
  and the largest exponent 127, \<open>float64\<close> has 53 and 1023. Below the smallest normal
  number the spacing stays that of the smallest exponent, and a result of magnitude
  \<open>2 ^ (emax + 1)\<close> or more is an infinity.
\<close>

datatype dtype = Float32 | Float64

fun precision :: "dtype \<Rightarrow> nat" where
  "precision Float32 = 24"
| "precision Float64 = 53"

fun emax :: "dtype \<Rightarrow> int" where
  "emax Float32 = 127"
| "emax Float64 = 1023"

datatype fp = Val real | PInf | NInf | NaN

text \<open>\<open>bits n\<close> is the number of binary digits of \<open>n\<close>.\<close>

fun bits :: "nat \<Rightarrow> nat" where
  "bits n = (if n = 0 then 0 else Suc (bits (n div 2)))"

declare bits.simps [simp del]

text \<open>For \<open>0 < x\<close>, \<open>expo x\<close> is the exponent \<open>e\<close> with \<open>2 ^ e \<le> x < 2 ^ (e + 1)\<close>.\<close>

definition expo :: "real \<Rightarrow> int" where
  "expo x = (if 1 \<le> x then int (bits (nat \<lfloor>x\<rfloor>)) - 1
             else - int (bits (nat (\<lceil>1 / x\<rceil> - 1))))"

definition pow2 :: "int \<Rightarrow> real" where
  "pow2 e = (if 0 \<le> e then 2 ^ nat e else 1 / 2 ^ nat (- e))"

text \<open>The integer nearest to \<open>x\<close>, the even one of two that are equally near.\<close>

definition rne :: "real \<Rightarrow> int" where
  "rne x = (let n = \<lfloor>x\<rfloor>; d = x - of_int n
            in if d < 1 / 2 then n else if 1 / 2 < d then n + 1
               else if even n then n else n + 1)"

definition fl :: "dtype \<Rightarrow> real \<Rightarrow> fp" where
  "fl dt x =
     (if x = 0 then Val 0
      else
        let q = max (expo \<bar>x\<bar>) (1 - emax dt) - (int (precision dt) - 1);
            r = of_int (rne (x / pow2 q)) * pow2 q
        in if pow2 (emax dt + 1) \<le> \<bar>r\<bar> then (if 0 < x then PInf else NInf) else Val r)"

text \<open>
  \<open>rnd dt v\<close> converts a value to the format \<open>dt\<close>, as \<open>astype\<close> does; \<open>py_float x\<close> is
  the Python literal written \<open>x\<close>, a \<open>float64\<close>.
\<close>

fun rnd :: "dtype \<Rightarrow> fp \<Rightarrow> fp" where
  "rnd dt (Val x) = fl dt x"
| "rnd dt PInf = PInf"
| "rnd dt NInf = NInf"
| "rnd dt NaN = NaN"

definition py_float :: "real \<Rightarrow> fp" where
  "py_float x = fl Float64 x"

text \<open>
  The exact result of an operation on two values, before it is rounded. With unsigned
  zeros, a non-zero number divided by zero takes the sign of the number.
\<close>

fun fneg :: "fp \<Rightarrow> fp" where
  "fneg (Val a) = Val (- a)"
| "fneg PInf = NInf"
| "fneg NInf = PInf"
| "fneg NaN = NaN"

fun xadd :: "fp \<Rightarrow> fp \<Rightarrow> fp" where
  "xadd (Val a) (Val b) = Val (a + b)"
| "xadd NaN b = NaN"
| "xadd a NaN = NaN"
| "xadd PInf NInf = NaN"
| "xadd NInf PInf = NaN"
| "xadd (Val a) b = b"
| "xadd a b = a"

fun xmul :: "fp \<Rightarrow> fp \<Rightarrow> fp" where
  "xmul (Val a) (Val b) = Val (a * b)"
| "xmul NaN b = NaN"
| "xmul a NaN = NaN"
| "xmul (Val a) b = (if a = 0 then NaN else if 0 < a then b else fneg b)"
| "xmul a (Val b) = (if b = 0 then NaN else if 0 < b then a else fneg a)"
| "xmul a b = (if a = b then PInf else NInf)"

fun xdiv :: "fp \<Rightarrow> fp \<Rightarrow> fp" where
  "xdiv (Val a) (Val b) =
     (if b = 0 then (if a = 0 then NaN else if 0 < a then PInf else NInf) else Val (a / b))"
| "xdiv NaN b = NaN"
| "xdiv a NaN = NaN"
| "xdiv (Val a) b = Val 0"
| "xdiv a (Val b) = (if 0 \<le> b then a else fneg a)"
| "xdiv a b = NaN"

definition fadd :: "dtype \<Rightarrow> fp \<Rightarrow> fp \<Rightarrow> fp" where
  "fadd dt a b = rnd dt (xadd a b)"

definition fsub :: "dtype \<Rightarrow> fp \<Rightarrow> fp \<Rightarrow> fp" where
  "fsub dt a b = rnd dt (xadd a (fneg b))"

definition fmul :: "dtype \<Rightarrow> fp \<Rightarrow> fp \<Rightarrow> fp" where
  "fmul dt a b = rnd dt (xmul a b)"

definition fdiv :: "dtype \<Rightarrow> fp \<Rightarrow> fp \<Rightarrow> fp" where
  "fdiv dt a b = rnd dt (xdiv a b)"


fun fabs :: "fp \<Rightarrow> fp" where
  "fabs (Val a) = Val \<bar>a\<bar>"
| "fabs PInf = PInf"
| "fabs NInf = PInf"
| "fabs NaN = NaN"

text \<open>
  \<open>a < b\<close>, false when either side is \<open>nan\<close>; \<open>np.maximum\<close> and \<open>np.minimum\<close>, which
  return \<open>nan\<close> when either side is \<open>nan\<close>.
\<close>

fun flt :: "fp \<Rightarrow> fp \<Rightarrow> bool" where
  "flt (Val a) (Val b) = (a < b)"
| "flt NaN b = False"
| "flt a NaN = False"
| "flt NInf b = (b \<noteq> NInf)"
| "flt a PInf = (a \<noteq> PInf)"
| "flt a b = False"

definition fmax :: "fp \<Rightarrow> fp \<Rightarrow> fp" where
  "fmax a b = (if a = NaN \<or> b = NaN then NaN else if flt a b then b else a)"

definition fmin :: "fp \<Rightarrow> fp \<Rightarrow> fp" where
  "fmin a b = (if a = NaN \<or> b = NaN then NaN else if flt b a then b else a)"

text \<open>
  An array is its dtype and its samples, each a number of that dtype. \<open>np.max\<close> of an
  empty array raises \<open>ValueError\<close>; \<open>np.clip(a, lo, hi)\<close> is
  \<open>np.minimum(np.maximum(a, lo), hi)\<close>;
  \<open>np.nan_to_num(a, nan=0.0, posinf=0.0, neginf=0.0)\<close> keeps the finite samples.
\<close>

type_synonym ndarray = "dtype \<times> fp list"

definition fp_max :: "fp list \<Rightarrow> pyexc + fp" where
  "fp_max a = (case a of [] \<Rightarrow> Inl ValueError | x # xs \<Rightarrow> Inr (fold fmax xs x))"

definition fp_clip :: "fp list \<Rightarrow> fp \<Rightarrow> fp \<Rightarrow> fp list" where
  "fp_clip a lo hi = map (\<lambda>x. fmin (fmax x lo) hi) a"

fun nan_to_num :: "fp \<Rightarrow> fp" where
  "nan_to_num (Val a) = Val a"
| "nan_to_num PInf = Val 0"
| "nan_to_num NInf = Val 0"
| "nan_to_num NaN = Val 0"

text \<open>
  The dtype of an operation between a numpy scalar of dtype \<open>dt\<close> and a Python number:
  \<open>float64\<close> under the promotion rules before NumPy 2, \<open>dt\<close> itself since NumPy 2, where
  the Python number is converted to \<open>dt\<close> first. An operation between an array and one
  of the scalars below has the dtype of the array: before NumPy 2 a \<open>float64\<close> scalar is
  converted to it, and since NumPy 2 the scalar has that dtype already.
\<close>

datatype promotion = Legacy | Weak

fun scalar_dtype :: "promotion \<Rightarrow> dtype \<Rightarrow> dtype" where
  "scalar_dtype Legacy dt = Float64"
| "scalar_dtype Weak dt = dt"

text \<open>
  The calls whose rounded result the source does not determine. A sum of rounded numbers
  depends on the order of the additions, which numpy chooses, so \<open>np.sum\<close>, \<open>np.mean\<close>
  and \<open>np.std\<close> are library calls here, each returning a scalar of the dtype of its
  array; \<open>signal.filtfilt\<close> returns \<open>float64\<close> samples; \<open>np.percentile\<close> and
  \<open>np.linspace\<close> return \<open>float64\<close> as well.
\<close>

record numpy =
  rules :: promotion
  fl_sum :: "ndarray \<Rightarrow> fp"
  fl_mean :: "ndarray \<Rightarrow> fp"
  fl_std :: "ndarray \<Rightarrow> fp"
  fl_filtfilt :: "ndarray \<Rightarrow> pyexc + fp list"
  fl_percentile :: "ndarray \<Rightarrow> nat \<Rightarrow> pyexc + fp"
  fl_linspace :: "real \<Rightarrow> real \<Rightarrow> nat \<Rightarrow> fp list"

text \<open>In-place multiplication of a slice of a \<open>float64\<close> array, as \<open>imul\<close> above.\<close>

definition fp_imul :: "fp list \<Rightarrow> fp list \<Rightarrow> pyexc + fp list" where
  "fp_imul a f =
     (if length f = length a then Inr (map2 (fmul Float64) a f)
      else if length f = 1 then Inr (map (\<lambda>x. fmul Float64 x (hd f)) a)
      else Inl ValueError)"

definition fp_imul_head :: "nat \<Rightarrow> fp list \<Rightarrow> fp list \<Rightarrow> pyexc + fp list" where
  "fp_imul_head k f a =
     (case fp_imul (take k a) f of Inl e \<Rightarrow> Inl e | Inr h \<Rightarrow> Inr (h @ drop k a))"

definition fp_imul_tail :: "nat \<Rightarrow> fp list \<Rightarrow> fp list \<Rightarrow> pyexc + fp list" where
  "fp_imul_tail k f a =
     (let i = (if k = 0 then 0 else length a - k)
      in case fp_imul (drop i a) f of Inl e \<Rightarrow> Inl e | Inr t \<Rightarrow> Inr (take i a @ t))"

text \<open>
  \<open>MultilingualVoiceCloner._clean_audio_artifacts\<close> in rounded arithmetic. The array is
  converted to \<open>float32\<close> and loses its mean in \<open>float32\<close>; what \<open>filtfilt\<close> returns is
  \<open>float64\<close>, and so is everything after it. The handler returns the variable \<open>audio\<close>
  as the failing statement found it.
\<close>

definition fp_frame_energy :: "numpy \<Rightarrow> fp list \<Rightarrow> fp list" where
  "fp_frame_energy N a =
     map (\<lambda>j. fl_sum N (Float64, map (\<lambda>x. fmul Float64 x x) (take 441 (drop (220 * j) a))))
       [0..<(length a - 441 + 219) div 220]"

definition fp_trim_to_speech :: "fp list \<Rightarrow> fp list \<Rightarrow> fp \<Rightarrow> fp list" where
  "fp_trim_to_speech a energy energy_threshold =
     (let valid_frames = filter (\<lambda>j. flt energy_threshold (energy ! j)) [0..<length energy]
      in if 0 < length valid_frames
         then
           let start_idx = hd valid_frames * 441 div 2;
               end_idx = min ((last valid_frames + 2) * 441 div 2) (length a)
           in drop start_idx (take end_idx a)
         else a)"

definition fp_clean_audio_artifacts :: "numpy \<Rightarrow> ndarray \<Rightarrow> ndarray" where
  "fp_clean_audio_artifacts N audio0 =
     (let audio1 = map (rnd Float32) (snd audio0);
          mean = fl_mean N (Float32, audio1);
          audio2 = map (\<lambda>x. fsub Float32 x mean) audio1
      in case fl_filtfilt N (Float32, audio2) of
           Inl e \<Rightarrow> (Float32, audio2)
         | Inr audio3 \<Rightarrow>
             let energy = fp_frame_energy N audio3
             in (case fp_max energy of
                   Inl e \<Rightarrow> (Float64, audio3)
                 | Inr max_energy \<Rightarrow>
                     let energy_threshold = fmul Float64 max_energy (py_float (1 / 100));
                         audio4 = fp_trim_to_speech audio3 energy energy_threshold
                     in (case fl_percentile N (Float64, map fabs audio4) 99 of
                           Inl e \<Rightarrow> (Float64, audio4)
                         | Inr q99 \<Rightarrow>
                             let audio5 = fp_clip audio4 (fneg q99) q99;
                                 fade_samples = min 661 (length audio5 div 15)
                             in if 0 < fade_samples
                                then
                                  (case fp_imul_head fade_samples
                                          (map (\<lambda>t. fmul Float64 t t)
                                             (fl_linspace N 0 1 fade_samples)) audio5 of
                                     Inl e \<Rightarrow> (Float64, audio5)
                                   | Inr audio6 \<Rightarrow>
                                       (case fp_imul_tail fade_samples
                                               (map (\<lambda>t. fmul Float64 t t)
                                                  (fl_linspace N 1 0 fade_samples)) audio6 of
                                          Inl e \<Rightarrow> (Float64, audio6)
                                        | Inr audio7 \<Rightarrow> (Float64, audio7)))
                                else (Float64, audio5))))"

text \<open>
  \<open>MultilingualVoiceCloner._final_audio_cleanup\<close> in rounded arithmetic. The clipping
  bounds \<open>audio_mean - clip_threshold\<close> and \<open>audio_mean + clip_threshold\<close> are scalars;
  the filter sits in a \<open>try\<close> of its own, whose handler goes on with the unfiltered
  array, and its guard \<open>high_cutoff < 0.99\<close> holds, \<open>high_cutoff\<close> being \<open>80 / 11025\<close>.
  The rescaling is \<open>audio * (0.95 / peak)\<close>: the quotient is one rounded scalar, and
  every sample is multiplied by it and rounded again. The handler of the method is
  \<open>np.clip(audio, -1.0, 1.0)\<close>; only \<open>np.max\<close> of an empty array leads there.
\<close>

definition fp_final_handler :: "ndarray \<Rightarrow> ndarray" where
  "fp_final_handler a = (fst a, fp_clip (snd a) (Val (- 1)) (Val 1))"

definition fp_final_audio_cleanup :: "numpy \<Rightarrow> ndarray \<Rightarrow> ndarray" where
  "fp_final_audio_cleanup N audio0 =
     (let dt = fst audio0;
          audio_std = fl_std N audio0;
          audio_mean = fl_mean N audio0;
          clip_threshold = fmul (scalar_dtype (rules N) dt) audio_std (Val 4);
          lower = fsub (scalar_dtype (rules N) dt) audio_mean clip_threshold;
          upper = fadd (scalar_dtype (rules N) dt) audio_mean clip_threshold;
          audio1 = (dt, fp_clip (snd audio0) (rnd dt lower) (rnd dt upper));
          audio2 = (case fl_filtfilt N audio1 of
                      Inl filter_error \<Rightarrow> audio1
                    | Inr filtered \<Rightarrow> (Float64, filtered))
      in case fp_max (map fabs (snd audio2)) of
           Inl e \<Rightarrow> fp_final_handler audio2
         | Inr peak \<Rightarrow>
             let sdt = scalar_dtype (rules N) (fst audio2);
                 audio3 =
                   (if flt (rnd sdt (py_float (95 / 100))) peak
                    then
                      let scale = fdiv sdt (rnd sdt (py_float (95 / 100))) peak
                      in map (\<lambda>x. fmul (fst audio2) x (rnd (fst audio2) scale)) (snd audio2)
                    else snd audio2)
             in (fst audio2, map nan_to_num audio3))"

text \<open>The pipeline: \<open>_final_audio_cleanup(_clean_audio_artifacts(audio))\<close>.\<close>

definition fp_sanitize :: "numpy \<Rightarrow> ndarray \<Rightarrow> ndarray" where
  "fp_sanitize N audio0 = fp_final_audio_cleanup N (fp_clean_audio_artifacts N audio0)"

text \<open>
  The property in question: every sample is finite and has an absolute value of at
  most 0.95, the real number.
\<close>

fun is_finite :: "fp \<Rightarrow> bool" where
  "is_finite (Val a) = True"
| "is_finite PInf = False"
| "is_finite NInf = False"
| "is_finite NaN = False"

fun within_095 :: "fp \<Rightarrow> bool" where
  "within_095 (Val a) = (\<bar>a\<bar> \<le> 95 / 100)"
| "within_095 PInf = False"
| "within_095 NInf = False"
| "within_095 NaN = False"






section \<open>Properties of the text substitutions\<close>

lemma isspace_32: "py_isspace 32"
  by (simp add: py_isspace_def)

lemma adjacent_Cons: "adjacent P Q (b # xs) = ((xs \<noteq> [] \<and> P b \<and> Q (hd xs)) \<or> adjacent P Q xs)"
  by (cases xs) auto

lemma adjacent_append: "adjacent P Q xs \<or> adjacent P Q ys \<Longrightarrow> adjacent P Q (xs @ ys)"
proof (induction xs)
  case Nil
  then show ?case by simp
next
  case (Cons a xs)
  then show ?case
    by (cases xs) (auto simp: adjacent_Cons)
qed

lemma adjacent_dropWhile: "\<not> adjacent P Q s \<Longrightarrow> \<not> adjacent P Q (dropWhile R s)"
  using adjacent_append [of P Q "takeWhile R s" "dropWhile R s"] by auto

lemma sub_pair_Nil_iff: "sub_pair P Q s = [] \<longleftrightarrow> s = []"
  by (induction P Q s rule: sub_pair.induct) auto

lemma hd_sub_pair: "hd (sub_pair P Q s) = hd s"
  by (induction P Q s rule: sub_pair.induct) auto

lemma sub_pair_fix: "\<not> adjacent P Q s \<Longrightarrow> sub_pair P Q s = s"
  by (induction P Q s rule: sub_pair.induct) auto

lemma sub_pair_keeps:
  "\<not> adjacent P Q s \<Longrightarrow> \<not> P 32 \<Longrightarrow> \<not> Q 32 \<Longrightarrow> \<not> adjacent P Q (sub_pair P' Q' s)"
proof (induction P' Q' s rule: sub_pair.induct)
  case (1 P' Q' a b cs)
  from "1.prems" have nab: "\<not> (P a \<and> Q b)" and nbc: "\<not> adjacent P Q (b # cs)"
    by auto
  show ?case
  proof (cases "P' a \<and> Q' b")
    case True
    from nbc have "\<not> adjacent P Q cs" by (simp add: adjacent_Cons)
    with 1 True have "\<not> adjacent P Q (sub_pair P' Q' cs)" by simp
    with nbc True "1.prems" show ?thesis
      by (auto simp: adjacent_Cons hd_sub_pair sub_pair_Nil_iff)
  next
    case False
    with 1 nbc have "\<not> adjacent P Q (sub_pair P' Q' (b # cs))" by simp
    with False nab show ?thesis
      by (auto simp: adjacent_Cons [of P Q a] hd_sub_pair sub_pair_Nil_iff)
  qed
qed auto

lemma sub_pair_separates:
  "\<not> P 32 \<Longrightarrow> \<not> Q 32 \<Longrightarrow> (\<And>c. Q c \<Longrightarrow> \<not> P c) \<Longrightarrow> \<not> adjacent P Q (sub_pair P Q s)"
proof (induction P Q s rule: sub_pair.induct)
  case (1 P Q a b cs)
  show ?case
  proof (cases "P a \<and> Q b")
    case True
    with 1 have "\<not> adjacent P Q (sub_pair P Q cs)" by simp
    with True "1.prems" show ?thesis
      by (auto simp: adjacent_Cons)
  next
    case False
    with 1 have "\<not> adjacent P Q (sub_pair P Q (b # cs))" by simp
    with False show ?thesis
      by (auto simp: adjacent_Cons [of P Q a] hd_sub_pair sub_pair_Nil_iff)
  qed
qed auto

lemma set_sub_pair: "set (sub_pair P Q s) \<subseteq> insert 32 (set s)"
  by (induction P Q s rule: sub_pair.induct) auto


lemma set_sub_ws: "set (sub_ws s) \<subseteq> insert 32 (set s)"
proof (induction s rule: sub_ws.induct)
  case (2 c cs)
  have "set (dropWhile py_isspace cs) \<subseteq> set cs"
    by (auto dest: set_dropWhileD)
  with 2 show ?case by auto
qed simp

lemma set_py_strip: "set (py_strip s) \<subseteq> set s"
  by (auto simp: py_strip_def dest!: set_dropWhileD)

lemma sub_ws_Nil_iff: "sub_ws s = [] \<longleftrightarrow> s = []"
  by (cases s) auto

lemma hd_sub_ws: "s \<noteq> [] \<Longrightarrow> \<not> py_isspace (hd s) \<Longrightarrow> hd (sub_ws s) = hd s"
  by (cases s) auto

lemma dropWhile_sub_ws:
  "d = [] \<or> \<not> py_isspace (hd d) \<Longrightarrow> dropWhile py_isspace (sub_ws d) = sub_ws d"
  by (cases d) auto

lemma sub_ws_idem: "sub_ws (sub_ws s) = sub_ws s"
proof (induction s rule: sub_ws.induct)
  case (2 c cs)
  show ?case
  proof (cases "py_isspace c")
    case True
    have "dropWhile py_isspace cs = [] \<or> \<not> py_isspace (hd (dropWhile py_isspace cs))"
      using hd_dropWhile [of py_isspace cs] by blast
    then have "dropWhile py_isspace (sub_ws (dropWhile py_isspace cs)) = sub_ws (dropWhile py_isspace cs)"
      by (rule dropWhile_sub_ws)
    with True 2 show ?thesis by (simp add: isspace_32)
  next
    case False
    with 2 show ?thesis by simp
  qed
qed simp

lemma sub_ws_keeps:
  "\<not> adjacent P Q s \<Longrightarrow> (\<And>c. py_isspace c \<Longrightarrow> \<not> P c \<and> \<not> Q c) \<Longrightarrow> \<not> adjacent P Q (sub_ws s)"
proof (induction s rule: sub_ws.induct)
  case (2 c cs)
  show ?case
  proof (cases "py_isspace c")
    case True
    from "2.prems"(1) have "\<not> adjacent P Q cs" by (simp add: adjacent_Cons)
    then have "\<not> adjacent P Q (dropWhile py_isspace cs)" by (rule adjacent_dropWhile)
    with 2 True have "\<not> adjacent P Q (sub_ws (dropWhile py_isspace cs))" by simp
    moreover have "\<not> P 32" using "2.prems"(2) isspace_32 by blast
    ultimately show ?thesis using True by (simp add: adjacent_Cons)
  next
    case False
    from "2.prems"(1) have ncs: "\<not> adjacent P Q cs" and nh: "\<not> (cs \<noteq> [] \<and> P c \<and> Q (hd cs))"
      by (simp_all add: adjacent_Cons)
    from 2 False ncs have ih: "\<not> adjacent P Q (sub_ws cs)" by simp
    have "\<not> (sub_ws cs \<noteq> [] \<and> P c \<and> Q (hd (sub_ws cs)))"
    proof (cases cs)
      case Nil
      then show ?thesis by simp
    next
      case (Cons d ds)
      show ?thesis
      proof (cases "py_isspace d")
        case True
        then have "hd (sub_ws cs) = 32" using Cons by simp
        moreover have "\<not> Q 32" using "2.prems"(2) isspace_32 by blast
        ultimately show ?thesis by simp
      next
        case False
        then have "hd (sub_ws cs) = d" using Cons by simp
        with nh Cons show ?thesis by simp
      qed
    qed
    with ih False show ?thesis by (simp add: adjacent_Cons)
  qed
qed simp

lemma py_strip_prefix:
  "py_strip s @ rev (takeWhile py_isspace (rev (dropWhile py_isspace s))) = dropWhile py_isspace s"
proof -
  let ?r = "rev (dropWhile py_isspace s)"
  have "rev (dropWhile py_isspace ?r) @ rev (takeWhile py_isspace ?r)
      = rev (takeWhile py_isspace ?r @ dropWhile py_isspace ?r)"
    by (simp only: rev_append)
  also have "\<dots> = dropWhile py_isspace s"
    by (simp only: takeWhile_dropWhile_id rev_rev_ident)
  finally show ?thesis by (simp only: py_strip_def)
qed

lemma py_strip_keeps: "\<not> adjacent P Q s \<Longrightarrow> \<not> adjacent P Q (py_strip s)"
proof -
  assume "\<not> adjacent P Q s"
  then have "\<not> adjacent P Q (dropWhile py_isspace s)" by (rule adjacent_dropWhile)
  then show ?thesis
    using adjacent_append [of P Q "py_strip s" "rev (takeWhile py_isspace (rev (dropWhile py_isspace s)))"]
      py_strip_prefix [of s] by auto
qed

lemma last_dropWhile: "dropWhile R xs \<noteq> [] \<Longrightarrow> last (dropWhile R xs) = last xs"
  by (induction xs) (auto split: if_splits)

lemma trimmed_py_strip: "trimmed (py_strip s)"
proof (cases "py_strip s = []")
  case True
  then show ?thesis by (simp add: trimmed_def)
next
  case False
  let ?d = "dropWhile py_isspace s"
  let ?r = "dropWhile py_isspace (rev ?d)"
  from False have r: "?r \<noteq> []" by (simp add: py_strip_def)
  have d: "?d \<noteq> []"
  proof
    assume "?d = []"
    with r show False by simp
  qed
  have "\<not> py_isspace (hd ?r)" using r by (rule hd_dropWhile)
  then have l: "\<not> py_isspace (last (py_strip s))"
    using r by (simp add: py_strip_def last_rev)
  have "last ?r = last (rev ?d)" using r by (rule last_dropWhile)
  also have "\<dots> = hd ?d" using d by (simp add: last_rev)
  finally have "hd (py_strip s) = hd ?d"
    using r by (simp add: py_strip_def hd_rev)
  moreover have "\<not> py_isspace (hd ?d)" using d by (rule hd_dropWhile)
  ultimately show ?thesis using l by (simp add: trimmed_def)
qed

lemma dropWhile_id: "xs \<noteq> [] \<Longrightarrow> \<not> R (hd xs) \<Longrightarrow> dropWhile R xs = xs"
  by (cases xs) auto

lemma py_strip_trimmed: "trimmed t \<Longrightarrow> py_strip t = t"
proof (cases t)
  case Nil
  then show ?thesis by (simp add: py_strip_def)
next
  case (Cons a as)
  assume "trimmed t"
  with Cons have h: "\<not> py_isspace a" and l: "\<not> py_isspace (last t)"
    by (simp_all add: trimmed_def)
  from h Cons have "dropWhile py_isspace t = t" by simp
  moreover have "dropWhile py_isspace (rev t) = rev t"
  proof -
    from Cons have "t \<noteq> []" by simp
    then have "rev t \<noteq> []" and "hd (rev t) = last t" by (simp_all add: hd_rev)
    with l show ?thesis by (intro dropWhile_id) simp_all
  qed
  ultimately show ?thesis by (simp add: py_strip_def)
qed

lemma last_sub_ws: "s \<noteq> [] \<Longrightarrow> \<not> py_isspace (last s) \<Longrightarrow> last (sub_ws s) = last s"
proof (induction s rule: sub_ws.induct)
  case (2 c cs)
  show ?case
  proof (cases "py_isspace c")
    case True
    with "2.prems" have cs: "cs \<noteq> []" and lc: "\<not> py_isspace (last cs)"
      by (auto split: if_splits)
    have dn: "dropWhile py_isspace cs \<noteq> []"
    proof
      assume "dropWhile py_isspace cs = []"
      then have "\<forall>x\<in>set cs. py_isspace x" by (simp add: dropWhile_eq_Nil_conv)
      with cs lc show False using last_in_set by blast
    qed
    then have ld: "last (dropWhile py_isspace cs) = last cs" by (rule last_dropWhile)
    with 2 True dn lc have "last (sub_ws (dropWhile py_isspace cs)) = last cs" by simp
    moreover have "sub_ws (dropWhile py_isspace cs) \<noteq> []"
      using dn by (simp only: sub_ws_Nil_iff not_False_eq_True)
    ultimately show ?thesis using True cs by simp
  next
    case False
    show ?thesis
    proof (cases "cs = []")
      case True
      with False show ?thesis by simp
    next
      case nonempty: False
      with "2.prems" have "\<not> py_isspace (last cs)" by simp
      with 2 False nonempty have "last (sub_ws cs) = last cs" by simp
      with False nonempty show ?thesis by (simp add: sub_ws_Nil_iff)
    qed
  qed
qed simp

lemma trimmed_sub_ws: "trimmed t \<Longrightarrow> trimmed (sub_ws t)"
  by (cases "t = []") (auto simp: trimmed_def hd_sub_ws last_sub_ws sub_ws_Nil_iff)

lemma normalise_idem: "sub_ws (py_strip (sub_ws (py_strip s))) = sub_ws (py_strip s)"
  by (simp add: py_strip_trimmed trimmed_sub_ws trimmed_py_strip sub_ws_idem)


lemma sub_chars_delete: "sub_chars P [] s = filter (\<lambda>c. \<not> P c) s"
  by (induction s) (simp_all add: sub_chars_def)

lemma letters_not_space: "py_isspace c \<Longrightarrow> \<not> hindi_letter c \<and> \<not> latin_letter c"
  by (auto simp: py_isspace_def hindi_letter_def latin_letter_def)

lemma letters_disjoint: "latin_letter c \<Longrightarrow> \<not> hindi_letter c"
  by (auto simp: hindi_letter_def latin_letter_def)

lemma spaced_fixed:
  assumes "\<forall>c\<in>set v. \<not> R c" and "\<not> R 32"
  shows "sub_chars R [] (spaced v) = spaced v"
    and "sub_pair hindi_letter latin_letter (spaced v) = spaced v"
    and "sub_pair latin_letter hindi_letter (spaced v) = spaced v"
proof -
  have h32: "\<not> hindi_letter 32" and l32: "\<not> latin_letter 32"
    by (simp_all add: hindi_letter_def latin_letter_def)
  let ?a = "sub_pair hindi_letter latin_letter v"
  let ?b = "sub_pair latin_letter hindi_letter ?a"
  have "set (spaced v) \<subseteq> insert 32 (set ?b)"
    unfolding spaced_def using set_sub_ws [of "py_strip ?b"] set_py_strip [of ?b] by blast
  also have "\<dots> \<subseteq> insert 32 (set v)"
    using set_sub_pair [of latin_letter hindi_letter ?a] set_sub_pair [of hindi_letter latin_letter v]
    by blast
  finally have "\<forall>c\<in>set (spaced v). \<not> R c"
    using assms by blast
  then show "sub_chars R [] (spaced v) = spaced v"
    by (simp add: sub_chars_delete)
  have "\<not> adjacent hindi_letter latin_letter ?a"
    using h32 l32 letters_disjoint by (intro sub_pair_separates) auto
  then have "\<not> adjacent hindi_letter latin_letter ?b"
    using h32 l32 by (rule sub_pair_keeps)
  then have "\<not> adjacent hindi_letter latin_letter (py_strip ?b)"
    by (rule py_strip_keeps)
  then have "\<not> adjacent hindi_letter latin_letter (spaced v)"
    unfolding spaced_def using letters_not_space by (intro sub_ws_keeps) auto
  then show "sub_pair hindi_letter latin_letter (spaced v) = spaced v"
    by (rule sub_pair_fix)
  have "\<not> adjacent latin_letter hindi_letter ?b"
    using h32 l32 letters_disjoint by (intro sub_pair_separates) auto
  then have "\<not> adjacent latin_letter hindi_letter (py_strip ?b)"
    by (rule py_strip_keeps)
  then have "\<not> adjacent latin_letter hindi_letter (spaced v)"
    unfolding spaced_def using letters_not_space by (intro sub_ws_keeps) auto
  then show "sub_pair latin_letter hindi_letter (spaced v) = spaced v"
    by (rule sub_pair_fix)
qed

lemma spaced_normal: "sub_ws (py_strip (spaced v)) = spaced v"
  unfolding spaced_def by (rule normalise_idem)

lemma fixed_optimize_text_idem:
  "fixed_optimize_text detect (fixed_optimize_text detect s) = fixed_optimize_text detect s"
proof -
  let ?R = "\<lambda>c. c = 33 \<or> c = 2404 \<or> c = 63"
  let ?mixed = "\<lambda>t. 1 / 10 < hindi_ratio (detect t) \<and> hindi_ratio (detect t) < 9 / 10"
  let ?t = "sub_ws (py_strip s)"
  have step: "fixed_optimize_text detect x =
      (if ?mixed (sub_ws (py_strip x)) then spaced (sub_chars ?R [] (sub_ws (py_strip x)))
       else sub_ws (py_strip x))" for x
    by (simp add: fixed_optimize_text_def spaced_def Let_def)
  show ?thesis
  proof (cases "?mixed ?t")
    case False
    then have "fixed_optimize_text detect s = ?t" by (auto simp: step)
    moreover have "fixed_optimize_text detect ?t = ?t"
      using False by (auto simp: step normalise_idem)
    ultimately show ?thesis by simp
  next
    case True
    let ?u = "spaced (sub_chars ?R [] ?t)"
    have fs: "fixed_optimize_text detect s = ?u" using True by (auto simp: step)
    have clean: "\<forall>c\<in>set (sub_chars ?R [] ?t). \<not> ?R c"
      by (simp add: sub_chars_delete)
    have "sub_chars ?R [] ?u = ?u"
      using clean by (rule spaced_fixed(1)) simp
    moreover have "sub_pair hindi_letter latin_letter ?u = ?u"
      using clean by (rule spaced_fixed(2)) simp
    moreover have "sub_pair latin_letter hindi_letter ?u = ?u"
      using clean by (rule spaced_fixed(3)) simp
    ultimately have "spaced (sub_chars ?R [] ?u) = ?u"
      by (simp add: spaced_def [of ?u] spaced_normal)
    then have "fixed_optimize_text detect ?u = ?u"
      by (auto simp: step [of ?u] spaced_normal)
    with fs show ?thesis by simp
  qed
qed

lemma strip_idem: "py_strip (py_strip s) = py_strip s"
  by (simp add: py_strip_trimmed trimmed_py_strip)

lemma length_py_strip: "length (py_strip s) \<le> length s"
proof -
  have "length (py_strip s) \<le> length (dropWhile py_isspace s)"
    unfolding py_strip_def using length_dropWhile_le [of py_isspace "rev (dropWhile py_isspace s)"] by simp
  then show ?thesis using length_dropWhile_le [of py_isspace s] by simp
qed

lemma ml_optimize_short_idem: "length s \<le> 20 \<Longrightarrow>
   ml_optimize_text_for_voice_cloning uni (ml_optimize_text_for_voice_cloning uni s) = ml_optimize_text_for_voice_cloning uni s"
  using length_py_strip [of s] by (simp add: ml_optimize_text_for_voice_cloning_def strip_idem)

section \<open>Claims about the script segmenter and the canonicalizer\<close>

lemmas text_eval =
  ascii_def py_isspace_def py_strip_def sub_chars_def devanagari_def latin_letter_def
  hindi_letter_def re_word_def ml_tag_def ml_detect_text_language_segments_def rt_tag_def
  rt_detect_text_language_segments_def hindi_ratio_def primary_language_def pause_mark_def

text \<open>
  What \<open>text.split()\<close> returns: every token is non-empty and free of whitespace, and
  the tokens, put together, are the text without its whitespace.
\<close>

lemma py_split_tokens:
  "w \<in> set (py_split s) \<Longrightarrow> w \<noteq> [] \<and> (\<forall>c\<in>set w. \<not> py_isspace c)"
proof (induction s rule: py_split.induct)
  case 1
  then show ?case by simp
next
  case (2 c cs)
  show ?case
  proof (cases "py_isspace c")
    case True
    with 2 show ?thesis by simp
  next
    case False
    with "2.prems" have "w = c # takeWhile (\<lambda>d. \<not> py_isspace d) cs
        \<or> w \<in> set (py_split (dropWhile (\<lambda>d. \<not> py_isspace d) cs))"
      by simp
    then show ?thesis
    proof
      assume "w = c # takeWhile (\<lambda>d. \<not> py_isspace d) cs"
      moreover have "\<forall>d\<in>set (takeWhile (\<lambda>d. \<not> py_isspace d) cs). \<not> py_isspace d"
        using set_takeWhileD by fastforce
      ultimately show ?thesis using False by simp
    next
      assume "w \<in> set (py_split (dropWhile (\<lambda>d. \<not> py_isspace d) cs))"
      with "2.IH"(2) False show ?thesis by blast
    qed
  qed
qed

lemma filter_takeWhile_same: "filter P (takeWhile P xs) = takeWhile P xs"
  by (induction xs) simp_all

lemma concat_py_split: "concat (py_split s) = filter (\<lambda>c. \<not> py_isspace c) s"
proof (induction s rule: py_split.induct)
  case 1
  show ?case by simp
next
  case (2 c cs)
  show ?case
  proof (cases "py_isspace c")
    case True
    with 2 show ?thesis by simp
  next
    case False
    let ?P = "\<lambda>d. \<not> py_isspace d"
    have "filter ?P cs = filter ?P (takeWhile ?P cs @ dropWhile ?P cs)" by simp
    also have "\<dots> = takeWhile ?P cs @ filter ?P (dropWhile ?P cs)"
      by (simp only: filter_append filter_takeWhile_same)
    finally show ?thesis using False "2.IH"(2) by simp
  qed
qed

lemma ml_tag_by_script:
  "ml_tag uni w =
     (if list_ex devanagari w then ''hi'' else if list_ex latin_letter w then ''en'' else ''hi'')"
  by (auto simp: ml_tag_def re_word_def list_ex_iff)

lemma hindi_ratio_bounds: "0 \<le> hindi_ratio segs \<and> hindi_ratio segs \<le> 1"
  by (simp add: hindi_ratio_def divide_le_eq)

text \<open>
  Claim C1, for the segmenter of \<open>FixedRealTimeHinglishVoiceCloner\<close>: on the one-token
  input \<open>123\<close> (no Devanagari, no Latin letter) the tag is \<open>unknown\<close>, which is neither
  \<open>hi\<close> nor \<open>en\<close>.
\<close>

theorem C1_realtime_tag_unknown:
  "\<not> snd ` set (rt_detect_text_language_segments (ascii ''123'')) \<subseteq> {''hi'', ''en''}"
  by (simp add: text_eval)

text \<open>
  Claim C1, as the code has it. Both segmenters return one pair per token of
  \<open>text.split()\<close>, in order. The segmenter of \<open>MultilingualVoiceCloner\<close> tags a token with
  a Devanagari code point \<open>hi\<close>, otherwise one with a Latin letter \<open>en\<close>, otherwise \<open>hi\<close>,
  so its tags are \<open>hi\<close> or \<open>en\<close>; the segmenter of the realtime cloner tags the third
  kind of token \<open>unknown\<close>. The empty input gives no pair and the ratio 0, and the ratio
  of either segmentation lies between 0 and 1.
\<close>

theorem C1_segmenter:
  "ml_detect_text_language_segments uni s =
     map (\<lambda>w. (w, if list_ex devanagari w then ''hi''
                   else if list_ex latin_letter w then ''en'' else ''hi'')) (py_split s)
   \<and> snd ` set (ml_detect_text_language_segments uni s) \<subseteq> {''hi'', ''en''}
   \<and> rt_detect_text_language_segments s =
     map (\<lambda>w. (w, if list_ex devanagari w then ''hi''
                   else if list_ex latin_letter w then ''en'' else ''unknown'')) (py_split s)
   \<and> ml_detect_text_language_segments uni [] = []
   \<and> rt_detect_text_language_segments [] = []
   \<and> hindi_ratio [] = 0
   \<and> 0 \<le> hindi_ratio (ml_detect_text_language_segments uni s)
   \<and> hindi_ratio (ml_detect_text_language_segments uni s) \<le> 1
   \<and> 0 \<le> hindi_ratio (rt_detect_text_language_segments s)
   \<and> hindi_ratio (rt_detect_text_language_segments s) \<le> 1"
proof -
  have "ml_detect_text_language_segments uni s =
     map (\<lambda>w. (w, if list_ex devanagari w then ''hi''
                   else if list_ex latin_letter w then ''en'' else ''hi'')) (py_split s)"
    by (simp add: ml_detect_text_language_segments_def ml_tag_by_script)
  moreover have "snd ` set (ml_detect_text_language_segments uni s) \<subseteq> {''hi'', ''en''}"
    by (auto simp: ml_detect_text_language_segments_def ml_tag_by_script split: if_splits)
  moreover have "rt_detect_text_language_segments s =
     map (\<lambda>w. (w, if list_ex devanagari w then ''hi''
                   else if list_ex latin_letter w then ''en'' else ''unknown'')) (py_split s)"
    by (simp add: rt_detect_text_language_segments_def rt_tag_def)
  moreover have "ml_detect_text_language_segments uni [] = []"
    and "rt_detect_text_language_segments [] = []" and "hindi_ratio [] = 0"
    by (simp_all add: ml_detect_text_language_segments_def rt_detect_text_language_segments_def
        hindi_ratio_def)
  ultimately show ?thesis
    using hindi_ratio_bounds [of "ml_detect_text_language_segments uni s"]
      hindi_ratio_bounds [of "rt_detect_text_language_segments s"]
    by simp
qed

theorem C1_segmenter_witness:
  "ml_detect_text_language_segments (\<lambda>c. False) (ascii ''ok 42'') =
     [(ascii ''ok'', ''en''), (ascii ''42'', ''hi'')]
   \<and> rt_detect_text_language_segments (ascii ''ok 42'') =
     [(ascii ''ok'', ''en''), (ascii ''42'', ''unknown'')]
   \<and> hindi_ratio (ml_detect_text_language_segments (\<lambda>c. False) (ascii ''ok 42'')) \<le> 1"
  using C1_segmenter [of "\<lambda>c. False" "ascii ''ok 42''"]
  by (simp add: ascii_def py_isspace_def devanagari_def latin_letter_def hindi_ratio_def)

text \<open>
  Claim C2, evaluated on the code. For \<open>Good morning aap kaise hain?\<close> the ratio is 0
  and the primary language \<open>en\<close>, as claimed; the question mark is replaced by a space
  and nothing trims it afterwards, so the result ends with a space and is not the
  claimed string.
\<close>

theorem C2_scenario_A:
  "hindi_ratio (ml_detect_text_language_segments uni (ascii ''Good morning aap kaise hain?'')) = 0
   \<and> primary_language
       (hindi_ratio (ml_detect_text_language_segments uni (ascii ''Good morning aap kaise hain?'')))
     = ''en''
   \<and> ml_optimize_text_for_voice_cloning uni (ascii ''Good morning aap kaise hain?'')
     = ascii ''Good morning aap kaise hain ''
   \<and> ml_optimize_text_for_voice_cloning uni (ascii ''Good morning aap kaise hain?'')
     \<noteq> ascii ''Good morning aap kaise hain''"
proof -
  have r: "hindi_ratio (ml_detect_text_language_segments uni (ascii ''Good morning aap kaise hain?'')) = 0"
    by (simp add: text_eval)
  have o: "ml_optimize_text_for_voice_cloning uni (ascii ''Good morning aap kaise hain?'')
      = ascii ''Good morning aap kaise hain ''"
    by (simp add: ml_optimize_text_for_voice_cloning_def text_eval Let_def)
  have "ascii ''Good morning aap kaise hain '' \<noteq> ascii ''Good morning aap kaise hain''"
    by (simp add: ascii_def)
  with r o show ?thesis by (simp add: primary_language_def)
qed

text \<open>
  The same text ending with a period instead: the period at the end is removed
  without leaving a space.
\<close>

lemma trailing_period_removed:
  "ml_optimize_text_for_voice_cloning uni (ascii ''Good morning aap kaise hain.'')
     = ascii ''Good morning aap kaise hain''"
  by (simp add: ml_optimize_text_for_voice_cloning_def text_eval Let_def)

text \<open>
  Claim C4, for \<open>MultilingualVoiceCloner.optimize_text_for_voice_cloning\<close>: a period
  inside a word gets a space after it, and a second application then removes that
  period, so applying the function twice differs from applying it once.
\<close>

lemma ml_optimize_first_pass:
  "ml_optimize_text_for_voice_cloning uni (ascii ''hello world foo.bar baz qux'')
     = ascii ''hello world foo. bar baz qux''"
  by (simp add: ml_optimize_text_for_voice_cloning_def text_eval Let_def)

lemma ml_optimize_second_pass:
  "ml_optimize_text_for_voice_cloning uni (ascii ''hello world foo. bar baz qux'')
     = ascii ''hello world foo bar baz qux''"
  by (simp add: ml_optimize_text_for_voice_cloning_def text_eval Let_def)

theorem C4_multilingual_not_idempotent:
  "ml_optimize_text_for_voice_cloning (\<lambda>c. False)
     (ml_optimize_text_for_voice_cloning (\<lambda>c. False) (ascii ''hello world foo.bar baz qux''))
   \<noteq> ml_optimize_text_for_voice_cloning (\<lambda>c. False) (ascii ''hello world foo.bar baz qux'')"
  by (simp add: ml_optimize_first_pass ml_optimize_second_pass) (simp add: ascii_def)

text \<open>
  Claim C4, as the code has it: the canonicalizers of the websocket cloner and of the
  realtime cloner are idempotent on every input, and the canonicalizer of
  \<open>MultilingualVoiceCloner\<close> is idempotent on the inputs of at most 20 characters, which
  take its quick return.
\<close>

theorem C4_idempotent:
  "ws_optimize_text_for_voice_cloning uni (ws_optimize_text_for_voice_cloning uni s)
     = ws_optimize_text_for_voice_cloning uni s
   \<and> rt_optimize_text_for_voice_cloning (rt_optimize_text_for_voice_cloning s)
     = rt_optimize_text_for_voice_cloning s
   \<and> (length s \<le> 20 \<longrightarrow>
        ml_optimize_text_for_voice_cloning uni (ml_optimize_text_for_voice_cloning uni s)
          = ml_optimize_text_for_voice_cloning uni s)"
  by (simp add: ws_optimize_text_for_voice_cloning_def rt_optimize_text_for_voice_cloning_def
      fixed_optimize_text_idem ml_optimize_short_idem)

theorem C4_idempotent_witness:
  "length (ascii '' ok  42 '') \<le> 20
   \<and> ml_optimize_text_for_voice_cloning (\<lambda>c. False)
       (ml_optimize_text_for_voice_cloning (\<lambda>c. False) (ascii '' ok  42 ''))
     = ml_optimize_text_for_voice_cloning (\<lambda>c. False) (ascii '' ok  42 '')
   \<and> ws_optimize_text_for_voice_cloning (\<lambda>c. False)
       (ws_optimize_text_for_voice_cloning (\<lambda>c. False) (ascii '' ok  42 ''))
     = ws_optimize_text_for_voice_cloning (\<lambda>c. False) (ascii '' ok  42 '')"
  using C4_idempotent [of "\<lambda>c. False" "ascii '' ok  42 ''"]
  by (simp add: ascii_def)

text \<open>
  Claim C5, as stated: the result for a short input would be the input with its
  whitespace runs collapsed and its ends trimmed. For \<open>a  b\<close> (two spaces) the code
  returns the two spaces, since the quick return comes before the normalisation.
\<close>

theorem C5_short_text_not_collapsed:
  "ml_optimize_text_for_voice_cloning (\<lambda>c. False) (ascii ''a  b'') = ascii ''a  b''
   \<and> sub_ws (py_strip (ascii ''a  b'')) = ascii ''a b''
   \<and> ml_optimize_text_for_voice_cloning (\<lambda>c. False) (ascii ''a  b'')
     \<noteq> sub_ws (py_strip (ascii ''a  b''))"
  by (simp add: ml_optimize_text_for_voice_cloning_def text_eval)

text \<open>
  Claim C5, as the code has it: an input of at most 20 characters is returned with
  its ends trimmed and nothing else changed.
\<close>

theorem C5_short_text:
  "length s \<le> 20 \<Longrightarrow> ml_optimize_text_for_voice_cloning uni s = py_strip s"
  by (simp add: ml_optimize_text_for_voice_cloning_def)

theorem C5_short_text_witness:
  "length (ascii '' a,  b! '') \<le> 20
   \<and> ml_optimize_text_for_voice_cloning (\<lambda>c. False) (ascii '' a,  b! '') = ascii ''a,  b!''"
proof -
  have h: "length (ascii '' a,  b! '') \<le> 20" by (simp add: ascii_def)
  show ?thesis
    using h C5_short_text [OF h, of "\<lambda>c. False"] by (simp add: text_eval)
qed

section \<open>Claims about the reference audio and the sanitizers\<close>

lemma fold_max_zero: "\<forall>x\<in>set xs. x = (0::real) \<Longrightarrow> fold max xs 0 = 0"
  by (induction xs) simp_all

lemma silent_peak: "a \<noteq> [] \<Longrightarrow> \<forall>x\<in>set a. x = 0 \<Longrightarrow> np_max (np_abs a) = Inr 0"
  by (cases a) (simp_all add: np_max_def np_abs_def fold_max_zero)

text \<open>
  An empty reference has no peak: \<open>np.max\<close> raises before the comparison with 0.
\<close>

lemma empty_reference_raises: "normalize_reference [] = Inl ValueError"
  by (simp add: normalize_reference_def np_max_def np_abs_def)

text \<open>
  Claim C6: for a silent reference (at least one sample, every sample 0) the peak is
  0, the normalisation is skipped without any division, and the waveform goes on
  unchanged: the streaming and websocket paths keep it as it is, and
  \<open>preprocess_audio\<close> at the working rate 22050 hands it unchanged to librosa's trim.
\<close>

theorem C6_silent_reference:
  "a \<noteq> [] \<Longrightarrow> \<forall>x\<in>set a. x = 0 \<Longrightarrow>
     normalize_reference a = Inr a \<and> ml_preprocess_audio L 22050 a = lib_trim L 30 a"
  by (simp add: normalize_reference_def ml_preprocess_audio_def silent_peak)

theorem C6_silent_reference_witness:
  "[0, 0, 0] \<noteq> ([] :: audio) \<and> list_all (\<lambda>x. x = 0) [0, 0, 0 :: real]
   \<and> normalize_reference [0, 0, 0] = Inr [0, 0, 0]
   \<and> ml_preprocess_audio (strict_libs \<lparr> lib_trim := (\<lambda>top_db a. Inr a) \<rparr>) 22050 [0, 0, 0]
     = Inr [0, 0, 0]"
  using C6_silent_reference [of "[0, 0, 0]" "strict_libs \<lparr> lib_trim := (\<lambda>top_db a. Inr a) \<rparr>"]
  by simp

text \<open>No sanitizer raises, whatever the library calls do.\<close>

lemma ws_cleanup_returns: "\<exists>r. ws_minimal_audio_cleanup L x = Inr r"
  by (auto simp: ws_minimal_audio_cleanup_def Let_def split: option.splits sum.splits)

lemma rt_cleanup_returns: "\<exists>r. rt_minimal_audio_cleanup L x = Inr r"
  by (auto simp: rt_minimal_audio_cleanup_def Let_def split: option.splits sum.splits)

lemma clean_artifacts_returns: "\<exists>r. ml_clean_audio_artifacts L x = Inr r"
  by (auto simp: ml_clean_audio_artifacts_def Let_def split: option.splits sum.splits)

lemma handler_returns: "\<exists>r. minimal_final_handler a = Inr r"
  by (cases a) (auto simp: minimal_final_handler_def np_max_def np_abs_def split: sum.splits)

lemma final_cleanup_returns: "\<exists>r. ml_minimal_final_cleanup L x = Inr r"
  using handler_returns
  by (auto simp: ml_minimal_final_cleanup_def Let_def split: option.splits sum.splits)

text \<open>
  The handler of \<open>_minimal_final_cleanup\<close> applied to a waveform that the peak
  normalisation has already brought to the peak 0.95 returns it as it is.
\<close>

lemma fold_max_map:
  fixes f :: "real \<Rightarrow> real"
  assumes "mono f"
  shows "fold max (map f xs) (f x) = f (fold max xs x)"
proof (induction xs arbitrary: x)
  case Nil
  show ?case by simp
next
  case (Cons y ys)
  have "max (f y) (f x) = f (max y x)"
    using assms by (simp add: mono_def max_def) (metis linear order_antisym)
  with Cons [of "max y x"] show ?case by simp
qed

lemma fold_max_nonneg: "0 \<le> x \<Longrightarrow> 0 \<le> fold max xs (x::real)"
  by (induction xs arbitrary: x) (simp_all add: max_def)

lemma peak_of_rescaled:
  assumes "np_max (np_abs a) = Inr p" and "0 < p" and "0 < k"
  shows "np_max (np_abs (rescale p k a)) = Inr k"
proof (cases a)
  case Nil
  with assms show ?thesis by (simp add: np_max_def np_abs_def)
next
  case (Cons x xs)
  let ?f = "\<lambda>v::real. v * (k / p)"
  have "0 \<le> k / p" using assms(2,3) by simp
  then have m: "mono ?f" unfolding mono_def by (intro allI impI mult_right_mono)
  have p: "fold max (map abs xs) \<bar>x\<bar> = p"
    using assms(1) Cons by (simp add: np_max_def np_abs_def)
  have each: "\<bar>v / p * k\<bar> = ?f \<bar>v\<bar>" for v
    using assms(2,3) by (simp add: abs_mult)
  have "np_abs (rescale p k a) = ?f \<bar>x\<bar> # map ?f (map abs xs)"
    unfolding np_abs_def rescale_def Cons by (simp only: list.map map_map o_def each)
  then have "np_max (np_abs (rescale p k a)) = Inr (fold max (map ?f (map abs xs)) (?f \<bar>x\<bar>))"
    by (simp only: np_max_def list.case)
  also have "\<dots> = Inr (?f p)" using fold_max_map [OF m, of "map abs xs" "\<bar>x\<bar>"] p by simp
  also have "\<dots> = Inr k" using assms(2) by simp
  finally show ?thesis .
qed

lemma rescale_same: "0 < k \<Longrightarrow> rescale k k a = a"
  by (simp add: rescale_def map_idI)

lemma handler_on_normalized:
  assumes "a \<noteq> []"
  shows "minimal_final_handler (peak_normalized a) = Inr (peak_normalized a)"
proof -
  obtain p where p: "np_max (np_abs a) = Inr p"
    using assms by (cases a) (simp_all add: np_max_def np_abs_def)
  show ?thesis
  proof (cases "0 < p")
    case True
    then have n: "peak_normalized a = rescale p (95 / 100) a" using p by (simp add: peak_normalized_def)
    have "np_max (np_abs (rescale p (95 / 100) a)) = Inr (95 / 100)"
      using p True by (rule peak_of_rescaled) simp
    moreover have "rescale p (95 / 100) a \<noteq> []" using assms by (simp add: rescale_def)
    ultimately show ?thesis using n
      by (simp add: minimal_final_handler_def rescale_same)
  next
    case False
    with p assms show ?thesis by (simp add: peak_normalized_def minimal_final_handler_def)
  qed
qed

lemma final_cleanup_trim_fails:
  assumes "x \<noteq> []" and "lib_trim L 25 (peak_normalized (remove_dc x)) = Inl e"
  shows "ml_minimal_final_cleanup L x = Inr (peak_normalized (remove_dc x))"
proof -
  have ne: "remove_dc x \<noteq> []" using assms(1) by (simp add: remove_dc_def)
  then obtain p where p: "np_max (np_abs (remove_dc x)) = Inr p"
    by (cases "remove_dc x") (simp_all add: np_max_def np_abs_def)
  then have "ml_minimal_final_cleanup L x = minimal_final_handler (peak_normalized (remove_dc x))"
    using assms by (simp add: ml_minimal_final_cleanup_def peak_normalized_def Let_def)
  with ne show ?thesis by (simp add: handler_on_normalized)
qed

text \<open>
  Claim C9, as stated: after a failing step the sanitizer would return the raw input.
  With a filter that raises on the three samples 1, 2, 3 (as scipy's does on so short
  an input), \<open>_clean_audio_artifacts\<close> returns the samples with the mean removed; with a
  trim that raises, \<open>_minimal_final_cleanup\<close> returns 1, 0 with the mean removed and
  rescaled to the peak 0.95.
\<close>

theorem C9_fallback_not_raw:
  "lib_filtfilt strict_libs (remove_dc [1, 2, 3]) = Inl ValueError
   \<and> ml_clean_audio_artifacts strict_libs [1, 2, 3] = Inr [- 1, 0, 1]
   \<and> ml_clean_audio_artifacts strict_libs [1, 2, 3] \<noteq> Inr [1, 2, 3]
   \<and> ml_minimal_final_cleanup strict_libs [1, 0] = Inr [95 / 100, - (95 / 100)]
   \<and> ml_minimal_final_cleanup strict_libs [1, 0] \<noteq> Inr [1, 0]"
  by (simp add: ml_clean_audio_artifacts_def ml_minimal_final_cleanup_def minimal_final_handler_def
      strict_libs_def remove_dc_def np_mean_def np_max_def np_abs_def rescale_def)

text \<open>
  Claim C9, as the code has it. A sanitization pass never raises: it returns a
  waveform whatever its library calls do. When a step fails, the waveform returned is
  the working one at that point: the raw input when the trim, the first step of the
  websocket \<open>_minimal_audio_cleanup\<close>, fails; the input with its mean removed when the
  filter of \<open>_clean_audio_artifacts\<close> fails; and the input with its mean removed and its
  peak brought to 0.95 when the trim of \<open>_minimal_final_cleanup\<close> fails.
\<close>

theorem C9_sanitizer_fallbacks:
  "(\<exists>r. ml_clean_audio_artifacts L x = Inr r)
   \<and> (\<exists>r. ml_minimal_final_cleanup L x = Inr r)
   \<and> (\<exists>r. ws_minimal_audio_cleanup L y = Inr r)
   \<and> (lib_trim L 20 x = Inl e \<longrightarrow> ws_minimal_audio_cleanup L (Some x) = Inr (Some x))
   \<and> (lib_filtfilt L (remove_dc x) = Inl e \<longrightarrow>
        ml_clean_audio_artifacts L x = Inr (remove_dc x))
   \<and> (x \<noteq> [] \<longrightarrow> lib_trim L 25 (peak_normalized (remove_dc x)) = Inl e \<longrightarrow>
        ml_minimal_final_cleanup L x = Inr (peak_normalized (remove_dc x)))"
proof (intro conjI impI)
  show "\<exists>r. ml_clean_audio_artifacts L x = Inr r" by (rule clean_artifacts_returns)
  show "\<exists>r. ml_minimal_final_cleanup L x = Inr r" by (rule final_cleanup_returns)
  show "\<exists>r. ws_minimal_audio_cleanup L y = Inr r" by (rule ws_cleanup_returns)
next
  assume "lib_trim L 20 x = Inl e"
  then show "ws_minimal_audio_cleanup L (Some x) = Inr (Some x)"
    by (simp add: ws_minimal_audio_cleanup_def)
next
  assume "lib_filtfilt L (remove_dc x) = Inl e"
  then show "ml_clean_audio_artifacts L x = Inr (remove_dc x)"
    by (simp add: ml_clean_audio_artifacts_def)
next
  assume "x \<noteq> []" and "lib_trim L 25 (peak_normalized (remove_dc x)) = Inl e"
  then show "ml_minimal_final_cleanup L x = Inr (peak_normalized (remove_dc x))"
    by (rule final_cleanup_trim_fails)
qed

theorem C9_sanitizer_fallbacks_witness:
  "lib_trim strict_libs 20 [1, 0] = Inl ValueError
   \<and> ws_minimal_audio_cleanup strict_libs (Some [1, 0]) = Inr (Some [1, 0])
   \<and> lib_filtfilt strict_libs (remove_dc [1, 0]) = Inl ValueError
   \<and> ml_clean_audio_artifacts strict_libs [1, 0] = Inr [1 / 2, - (1 / 2)]
   \<and> [1, 0] \<noteq> ([] :: audio)
   \<and> lib_trim strict_libs 25 (peak_normalized (remove_dc [1, 0])) = Inl ValueError
   \<and> ml_minimal_final_cleanup strict_libs [1, 0] = Inr [95 / 100, - (95 / 100)]"
  using C9_sanitizer_fallbacks [of strict_libs "[1, 0]" "Some [1, 0]" ValueError]
  by (simp add: strict_libs_def remove_dc_def np_mean_def peak_normalized_def np_max_def
      np_abs_def rescale_def)

text \<open>
  Claim C10: for \<open>None\<close> and for an array of length 0 the minimal audio cleanup of the
  websocket cloner and that of the realtime cloner return their argument, and do not
  raise, before any library call.
\<close>

theorem C10_none_or_empty:
  "ws_minimal_audio_cleanup L None = Inr None
   \<and> ws_minimal_audio_cleanup L (Some []) = Inr (Some [])
   \<and> rt_minimal_audio_cleanup L None = Inr None
   \<and> rt_minimal_audio_cleanup L (Some []) = Inr (Some [])"
  by (simp add: ws_minimal_audio_cleanup_def rt_minimal_audio_cleanup_def)

section \<open>Claims about the synthesis paths\<close>

lemma unsplit_refl: "only_unsplit_calls w w"
  by (simp add: only_unsplit_calls_def)

lemma unsplit_trans: "only_unsplit_calls w w1 \<Longrightarrow> only_unsplit_calls w1 w2 \<Longrightarrow> only_unsplit_calls w w2"
  by (auto simp: only_unsplit_calls_def)

lemma unsplit_same_calls:
  "only_unsplit_calls w1 w2 \<Longrightarrow> calls w1 = calls w \<Longrightarrow> calls w' = calls w2 \<Longrightarrow> only_unsplit_calls w w'"
  by (simp add: only_unsplit_calls_def)

lemma unsplit_invoke:
  "\<not> split_sentences c \<Longrightarrow> invoke_tts E c w = (w1, r) \<Longrightarrow> only_unsplit_calls w w1"
  by (auto simp: invoke_tts_def only_unsplit_calls_def)

lemma unsplit_new_calls: "only_unsplit_calls w w' \<Longrightarrow> \<forall>c\<in>set (new_calls w w'). \<not> split_sentences c"
  by (auto simp: only_unsplit_calls_def new_calls_def list_all_iff)

lemma files_invoke: "invoke_tts E c w = (w1, r) \<Longrightarrow> files w1 = files w"
  by (auto simp: invoke_tts_def)

lemma params_unsplit:
  "\<not> split_sentences (ml_tts_params t p l)" "\<not> split_sentences (plain_tts_params t p l)"
  by (simp_all add: ml_tts_params_def plain_tts_params_def)

lemma ml_synthesize_unsplit:
  assumes "\<not> split_sentences p" and "ml_synthesize E p w = (w2, r)"
  shows "only_unsplit_calls w w2"
proof (cases "has_model E")
  case False
  with assms show ?thesis by (auto simp: ml_synthesize_def intro: unsplit_invoke)
next
  case True
  let ?q = "p\<lparr>other_kwargs := other_kwargs p
      @ [''temperature'', ''length_penalty'', ''repetition_penalty'', ''use_deepspeed'']\<rparr>"
  obtain w1 r1 where first: "invoke_tts E ?q w = (w1, r1)" by (cases "invoke_tts E ?q w")
  have a: "only_unsplit_calls w w1" using first assms(1) by (intro unsplit_invoke [of ?q]) simp_all
  show ?thesis
  proof (cases "r1 = Inl TypeError \<or> r1 = Inl AttributeError")
    case False
    with True first assms(2) have "w2 = w1"
      by (auto simp: ml_synthesize_def split: sum.splits)
    with a show ?thesis by simp
  next
    case retry: True
    with True first assms(2) have "invoke_tts E p w1 = (w2, r)"
      by (auto simp: ml_synthesize_def)
    with assms(1) have "only_unsplit_calls w1 w2" by (rule unsplit_invoke)
    with a show ?thesis by (rule unsplit_trans)
  qed
qed

lemma with_speaker_file_removed:
  "temp \<notin> files (fst (with_speaker_file temp body w))"
  by (simp add: with_speaker_file_def remove_if_exists_def split: prod.splits)

lemma with_speaker_file_unsplit:
  assumes "\<And>w0. only_unsplit_calls w0 (fst (body w0))"
  shows "only_unsplit_calls w (fst (with_speaker_file temp body w))"
proof -
  obtain w' r where b: "body (sf_write temp w) = (w', r)" by (cases "body (sf_write temp w)")
  with assms [of "sf_write temp w"] have "only_unsplit_calls (sf_write temp w) w'" by simp
  then have "only_unsplit_calls w (remove_if_exists temp w')"
    by (rule unsplit_same_calls) (simp_all add: sf_write_def remove_if_exists_def)
  with b show ?thesis by (simp add: with_speaker_file_def)
qed

lemma rt_stream_unsplit:
  "rt_stream E L D temp primary chunks w = (w', out, ending) \<Longrightarrow> only_unsplit_calls w w'"
proof (induction E L D temp primary chunks w arbitrary: out w' ending rule: rt_stream.induct)
  case (1 E L D temp primary w)
  then show ?case by (simp add: unsplit_refl)
next
  case (2 E L D temp primary i chunk rest w)
  show ?case
  proof (cases "py_strip chunk = []")
    case True
    with 2 show ?thesis by simp
  next
    case False
    let ?c = "plain_tts_params chunk temp primary"
    obtain w1 r where inv: "invoke_tts E ?c w = (w1, r)" by (cases "invoke_tts E ?c w")
    then have step: "only_unsplit_calls w w1"
      by (rule unsplit_invoke [rotated]) (rule params_unsplit)
    have stay: "only_unsplit_calls w w" by (rule unsplit_refl)
    from "2.prems" False inv step stay "2.IH"(2) show ?thesis
      by (auto split: awaited.splits option.splits sum.splits consumer.splits prod.splits
          intro: unsplit_trans)
  qed
qed

lemma rt_stream_files: "files (fst (rt_stream E L D temp primary chunks w)) = files w"
proof (induction E L D temp primary chunks w rule: rt_stream.induct)
  case (1 E L D temp primary w)
  show ?case by simp
next
  case (2 E L D temp primary i chunk rest w)
  let ?w1 = "w\<lparr>calls := calls w @ [plain_tts_params chunk temp primary]\<rparr>"
  have w1: "files ?w1 = files w" by simp
  show ?case
  proof (cases "py_strip chunk = []")
    case True
    with 2 show ?thesis by simp
  next
    case False
    note ih = "2.IH"(2) [OF False, unfolded invoke_tts_def, OF _ refl]
    show ?thesis
      using False ih w1
      by (auto simp: invoke_tts_def split: awaited.splits option.splits sum.splits consumer.splits prod.splits)
  qed
qed

lemma ml_speaker_run_removed:
  "''temp_speaker_multilingual.wav'' \<notin> files (fst (ml_speaker_run E uni t w))"
  unfolding ml_speaker_run_def Let_def by (rule with_speaker_file_removed)

lemma ml_speaker_run_unsplit: "only_unsplit_calls w (fst (ml_speaker_run E uni t w))"
  unfolding ml_speaker_run_def Let_def
proof (rule with_speaker_file_unsplit)
  fix w0 p
  show "only_unsplit_calls w0 (fst (ml_synthesize E (ml_tts_params p
      ''temp_speaker_multilingual.wav'' l) w0))" for l
    using ml_synthesize_unsplit [OF params_unsplit(1), of E p _ l w0]
    by (cases "ml_synthesize E (ml_tts_params p ''temp_speaker_multilingual.wav'' l) w0") simp
qed

lemma ws_speaker_run_removed:
  "''temp_speaker_websocket.wav'' \<notin> files (fst (ws_speaker_run E uni t w))"
  unfolding ws_speaker_run_def Let_def by (rule with_speaker_file_removed)

lemma ws_speaker_run_unsplit: "only_unsplit_calls w (fst (ws_speaker_run E uni t w))"
  unfolding ws_speaker_run_def Let_def
proof (rule with_speaker_file_unsplit)
  fix w0 p
  show "only_unsplit_calls w0 (fst (invoke_tts E (plain_tts_params p
      ''temp_speaker_websocket.wav'' l) w0))" for l
    using unsplit_invoke [OF params_unsplit(2), of E p _ l w0]
    by (cases "invoke_tts E (plain_tts_params p ''temp_speaker_websocket.wav'' l) w0") simp
qed

lemma ml_result_cases:
  "fst (ml_clone_voice_multilingual E L uni t vf out eq w) \<in>
     {w, fst (ml_speaker_run E uni t w), sf_write out (fst (ml_speaker_run E uni t w))}"
  by (simp add: ml_clone_voice_multilingual_def Let_def split: option.splits sum.splits prod.splits)

lemma ws_result_cases:
  "fst (ws_clone_voice_multilingual E L uni t vf out w) \<in>
     {w, fst (ws_speaker_run E uni t w), sf_write out (fst (ws_speaker_run E uni t w))}"
  by (simp add: ws_clone_voice_multilingual_def Let_def split: option.splits sum.splits prod.splits)

lemma rt_result_cases:
  "fst (rt_clone_voice_realtime E L D hash t vf w) = w \<or>
   (\<exists>primary chunks. fst (rt_clone_voice_realtime E L D hash t vf w) =
      fst (with_speaker_file (rt_temp_speaker_path hash t)
             (rt_stream E L D (rt_temp_speaker_path hash t) primary chunks) w))"
  by (auto simp: rt_clone_voice_realtime_def Let_def split: option.splits sum.splits)

lemma unsplit_after_write:
  "only_unsplit_calls w w1 \<Longrightarrow> only_unsplit_calls w (sf_write out w1)"
  by (erule unsplit_same_calls) (simp_all add: sf_write_def)

lemma ml_unsplit: "only_unsplit_calls w (fst (ml_clone_voice_multilingual E L uni t vf out eq w))"
  using ml_result_cases [of E L uni t vf out eq w] ml_speaker_run_unsplit [of w E uni t]
  by (auto simp: unsplit_refl intro: unsplit_after_write)

lemma ws_unsplit: "only_unsplit_calls w (fst (ws_clone_voice_multilingual E L uni t vf out w))"
  using ws_result_cases [of E L uni t vf out w] ws_speaker_run_unsplit [of w E uni t]
  by (auto simp: unsplit_refl intro: unsplit_after_write)

lemma rt_unsplit: "only_unsplit_calls w (fst (rt_clone_voice_realtime E L D hash t vf w))"
proof -
  have "only_unsplit_calls w0 (fst (rt_stream E L D temp primary chunks w0))"
    for w0 temp primary chunks
    using rt_stream_unsplit [of E L D temp primary chunks w0]
    by (cases "rt_stream E L D temp primary chunks w0") simp
  then have "only_unsplit_calls w
      (fst (with_speaker_file temp (rt_stream E L D temp primary chunks) w))"
    for temp primary chunks
    by (rule with_speaker_file_unsplit)
  with rt_result_cases [of E L D hash t vf w] show ?thesis
    by (auto simp: unsplit_refl)
qed



lemma absent_after_write: "p \<notin> files w1 \<Longrightarrow> out \<noteq> p \<Longrightarrow> p \<notin> files (sf_write out w1)"
  by (auto simp: sf_write_def)

lemma absent_in_cases:
  "x \<in> {w, w1, sf_write out w1} \<Longrightarrow> p \<notin> files w \<Longrightarrow> p \<notin> files w1 \<Longrightarrow> out \<noteq> p \<Longrightarrow>
   p \<notin> files x"
  using absent_after_write [of p w1 out] by blast

lemma ml_removed:
  assumes "out \<noteq> ''temp_speaker_multilingual.wav''"
    and "''temp_speaker_multilingual.wav'' \<notin> files w"
  shows "''temp_speaker_multilingual.wav'' \<notin>
    files (fst (ml_clone_voice_multilingual E L uni t vf out eq w))"
  using ml_result_cases assms(2) ml_speaker_run_removed assms(1) by (rule absent_in_cases)

lemma ws_removed:
  assumes "out \<noteq> ''temp_speaker_websocket.wav''"
    and "''temp_speaker_websocket.wav'' \<notin> files w"
  shows "''temp_speaker_websocket.wav'' \<notin>
    files (fst (ws_clone_voice_multilingual E L uni t vf out w))"
  using ws_result_cases assms(2) ws_speaker_run_removed assms(1) by (rule absent_in_cases)

lemma rt_removed:
  assumes "rt_temp_speaker_path hash t \<notin> files w"
  shows "rt_temp_speaker_path hash t \<notin> files (fst (rt_clone_voice_realtime E L D hash t vf w))"
proof -
  from rt_result_cases [of E L D hash t vf w] show ?thesis
  proof
    assume "fst (rt_clone_voice_realtime E L D hash t vf w) = w"
    with assms show ?thesis by simp
  next
    assume "\<exists>primary chunks. fst (rt_clone_voice_realtime E L D hash t vf w) =
      fst (with_speaker_file (rt_temp_speaker_path hash t)
             (rt_stream E L D (rt_temp_speaker_path hash t) primary chunks) w)"
    then obtain primary chunks where "fst (rt_clone_voice_realtime E L D hash t vf w) =
      fst (with_speaker_file (rt_temp_speaker_path hash t)
             (rt_stream E L D (rt_temp_speaker_path hash t) primary chunks) w)"
      by blast
    then show ?thesis by (simp only: with_speaker_file_removed not_False_eq_True)
  qed
qed

text \<open>Concrete runs, evaluated.\<close>

lemmas run_eval =
  fresh_world_def retry_engine_def steady_engine_def sample_features_def closing_driver_def
  strict_libs_def invoke_tts_def sf_write_def remove_if_exists_def with_speaker_file_def
  ml_tts_params_def plain_tts_params_def ml_synthesize_def new_calls_def

lemma retry_speaker_run:
  "ml_speaker_run retry_engine (\<lambda>c. False) (ascii ''ok go'') fresh_world =
     (\<lparr> files = {}, calls =
          [\<lparr> call_text = ascii ''ok go'', speaker_wav = ''temp_speaker_multilingual.wav'',
             language = ''en'', split_sentences = False,
             other_kwargs = [''speed'', ''do_trim'', ''use_microphone'', ''temperature'',
               ''length_penalty'', ''repetition_penalty'', ''use_deepspeed''] \<rparr>,
           \<lparr> call_text = ascii ''ok go'', speaker_wav = ''temp_speaker_multilingual.wav'',
             language = ''en'', split_sentences = False,
             other_kwargs = [''speed'', ''do_trim'', ''use_microphone''] \<rparr>] \<rparr>,
      Inr [1 / 2, - (1 / 2)])"
  by (simp add: ml_speaker_run_def ml_optimize_text_for_voice_cloning_def text_eval run_eval Let_def)

lemma retry_postprocess: "ml_postprocess strict_libs sample_features False (ascii ''ok go'') [1 / 2, - (1 / 2)]
   = Inr [95 / 100, - (95 / 100)]"
  by (simp add: ml_postprocess_def ml_clean_audio_artifacts_def ml_minimal_final_cleanup_def
      minimal_final_handler_def strict_libs_def remove_dc_def np_mean_def np_max_def np_abs_def rescale_def)

lemma retry_clone:
  "ml_clone_voice_multilingual retry_engine strict_libs (\<lambda>c. False) (ascii ''ok go'') sample_features
     ''out.wav'' False fresh_world =
   (sf_write ''out.wav'' (fst (ml_speaker_run retry_engine (\<lambda>c. False) (ascii ''ok go'') fresh_world)),
    Inr ''out.wav'')"
proof -
  have "load_error retry_engine = None" by (simp add: retry_engine_def)
  moreover have "audio_data sample_features \<noteq> None" by (simp add: sample_features_def)
  moreover have "ml_detect_text_language_segments (\<lambda>c. False) (ascii ''ok go'') \<noteq> []"
    by (simp add: text_eval)
  moreover have "ml_optimize_text_for_voice_cloning (\<lambda>c. False) (ascii ''ok go'') = ascii ''ok go''"
    by (simp add: ml_optimize_text_for_voice_cloning_def text_eval)
  ultimately show ?thesis
    by (auto simp: ml_clone_voice_multilingual_def retry_speaker_run retry_postprocess Let_def)
qed

lemma demo_temp_path: "rt_temp_speaker_path (\<lambda>t. 12345) (ascii ''Hi. Yo.'') = ''temp_speaker_realtime_2345.wav''"
  by (simp add: rt_temp_speaker_path_def decimal.simps)

lemma demo_chunks: "split_text_into_chunks (rt_optimize_text_for_voice_cloning (ascii ''Hi. Yo.'')) = [ascii ''Hi'', ascii ''Yo'']"
  by (simp add: split_text_into_chunks_def rt_optimize_text_for_voice_cloning_def fixed_optimize_text_def
      re_split_marks.simps text_eval Let_def)

lemma demo_cleanup: "rt_minimal_audio_cleanup strict_libs (Some [1 / 2, - (1 / 2)]) = Inr (Some [1 / 2, - (1 / 2)])"
  by (simp add: rt_minimal_audio_cleanup_def strict_libs_def)

lemma demo_int16: "to_int16 [1 / 2, - (1 / 2)] = [16383, - 16383]"
  by (simp add: to_int16_def Let_def)

lemma int16_wraps: "to_int16 [2, - 2, 1, - 1] = [- 2, 2, 32767, - 32767]"
  by (simp add: to_int16_def Let_def)

lemma fresh_world_sel: "calls fresh_world = []" "files fresh_world = {}"
  by (simp_all add: fresh_world_def)

lemma steady_speaker_run:
  "ws_speaker_run steady_engine (\<lambda>c. False) (ascii ''ok go'') fresh_world =
     (\<lparr> files = {}, calls =
          [\<lparr> call_text = ascii ''ok go'', speaker_wav = ''temp_speaker_websocket.wav'',
             language = ''en'', split_sentences = False, other_kwargs = [] \<rparr>] \<rparr>,
      Inr [1 / 2, - (1 / 2)])"
  by (simp add: ws_speaker_run_def ws_optimize_text_for_voice_cloning_def fixed_optimize_text_def
      text_eval run_eval Let_def)

lemma steady_clone:
  "ws_clone_voice_multilingual steady_engine strict_libs (\<lambda>c. False) (ascii ''ok go'') sample_features
     ''out.wav'' fresh_world =
   (sf_write ''out.wav'' (fst (ws_speaker_run steady_engine (\<lambda>c. False) (ascii ''ok go'') fresh_world)),
    Inr ''out.wav'')"
proof -
  have "load_error steady_engine = None" by (simp add: steady_engine_def)
  moreover have "audio_data sample_features = Some [1 / 2, - (1 / 4)]"
    by (simp add: sample_features_def)
  moreover have "normalize_reference [1 / 2, - (1 / 4)] = Inr [8 / 10, - (4 / 10)]"
    by (simp add: normalize_reference_def np_max_def np_abs_def rescale_def)
  moreover have "ws_minimal_audio_cleanup strict_libs (Some [1 / 2, - (1 / 2)])
      = Inr (Some [1 / 2, - (1 / 2)])"
    by (simp add: ws_minimal_audio_cleanup_def strict_libs_def)
  ultimately show ?thesis
    by (simp add: ws_clone_voice_multilingual_def steady_speaker_run)
qed

lemma closed_stream:
  "rt_clone_voice_realtime steady_engine strict_libs closing_driver (\<lambda>t. 12345) (ascii ''Hi. Yo.'')
     sample_features fresh_world =
   (\<lparr> files = {}, calls =
        [\<lparr> call_text = ascii ''Hi'', speaker_wav = ''temp_speaker_realtime_2345.wav'',
           language = ''en'', split_sentences = False, other_kwargs = [] \<rparr>] \<rparr>,
    [[16383, - 16383]], Closed)"
proof -
  have "load_error steady_engine = None" by (simp add: steady_engine_def)
  moreover have "audio_data sample_features = Some [1 / 2, - (1 / 4)]"
    by (simp add: sample_features_def)
  moreover have "normalize_reference [1 / 2, - (1 / 4)] = Inr [8 / 10, - (4 / 10)]"
    by (simp add: normalize_reference_def np_max_def np_abs_def rescale_def)
  moreover have "primary_language (hindi_ratio (rt_detect_text_language_segments (ascii ''Hi. Yo.''))) = ''en''"
    by (simp add: text_eval)
  moreover have "with_speaker_file ''temp_speaker_realtime_2345.wav''
      (rt_stream steady_engine strict_libs closing_driver ''temp_speaker_realtime_2345.wav'' ''en''
         [(0, ascii ''Hi''), (1, ascii ''Yo'')]) fresh_world =
    (\<lparr> files = {}, calls =
        [\<lparr> call_text = ascii ''Hi'', speaker_wav = ''temp_speaker_realtime_2345.wav'',
           language = ''en'', split_sentences = False, other_kwargs = [] \<rparr>] \<rparr>,
    [[16383, - 16383]], Closed)"
  proof -
    have "synth steady_engine n c = Inr [1 / 2, - (1 / 2)]" for n c
      by (simp add: steady_engine_def)
    moreover have "progress_callback closing_driver = None" and "at_yield closing_driver i = Close" for i
      by (simp_all add: closing_driver_def)
    ultimately show ?thesis
      by (simp add: demo_cleanup demo_int16 invoke_tts_def sf_write_def remove_if_exists_def
          with_speaker_file_def plain_tts_params_def fresh_world_def ascii_def py_strip_def
          py_isspace_def)
  qed
  ultimately show ?thesis
    by (simp add: rt_clone_voice_realtime_def demo_temp_path demo_chunks Let_def upt_rec)
qed


text \<open>
  Claim C7: every call to the external Synthesizer that a single-shot run, a websocket
  run or a streaming run makes, for every chunk and on the retry after a
  \<open>TypeError\<close> as well, passes \<open>split_sentences = False\<close>.
\<close>

theorem C7_split_sentences_false:
  "(\<forall>c\<in>set (new_calls w (fst (ml_clone_voice_multilingual E L uni t vf out eq w))).
      \<not> split_sentences c)
   \<and> (\<forall>c\<in>set (new_calls w (fst (ws_clone_voice_multilingual E L uni t vf out w))).
      \<not> split_sentences c)
   \<and> (\<forall>c\<in>set (new_calls w (fst (rt_clone_voice_realtime E L D hash t vf w))).
      \<not> split_sentences c)"
proof (intro conjI)
  show "\<forall>c\<in>set (new_calls w (fst (ml_clone_voice_multilingual E L uni t vf out eq w))).
      \<not> split_sentences c"
    by (rule unsplit_new_calls) (rule ml_unsplit)
  show "\<forall>c\<in>set (new_calls w (fst (ws_clone_voice_multilingual E L uni t vf out w))).
      \<not> split_sentences c"
    by (rule unsplit_new_calls) (rule ws_unsplit)
  show "\<forall>c\<in>set (new_calls w (fst (rt_clone_voice_realtime E L D hash t vf w))).
      \<not> split_sentences c"
    by (rule unsplit_new_calls) (rule rt_unsplit)
qed

theorem C7_split_sentences_false_witness:
  "map split_sentences
     (new_calls fresh_world
        (fst (ml_clone_voice_multilingual retry_engine strict_libs (\<lambda>c. False) (ascii ''ok go'')
                sample_features ''out.wav'' False fresh_world))) = [False, False]
   \<and> map split_sentences
     (new_calls fresh_world
        (fst (ws_clone_voice_multilingual steady_engine strict_libs (\<lambda>c. False) (ascii ''ok go'')
                sample_features ''out.wav'' fresh_world))) = [False]
   \<and> map split_sentences
     (new_calls fresh_world
        (fst (rt_clone_voice_realtime steady_engine strict_libs closing_driver (\<lambda>t. 12345)
                (ascii ''Hi. Yo.'') sample_features fresh_world))) = [False]"
  using C7_split_sentences_false [of fresh_world retry_engine strict_libs "\<lambda>c. False"
      "ascii ''ok go''" sample_features "''out.wav''" False]
  by (simp add: retry_clone retry_speaker_run steady_clone steady_speaker_run closed_stream
      new_calls_def sf_write_def fresh_world_sel)

text \<open>
  Claim C8: when a run has ended, on whichever path (returned, raised in the
  Synthesizer or in the processing after it, cancelled at an \<open>await\<close>, or closed by the
  consumer at a \<open>yield\<close>), the speaker file it wrote does not exist. The file is taken
  not to exist before the run, and the output path of a single-shot or websocket run
  is taken to differ from the fixed name of the speaker file.
\<close>

theorem C8_speaker_file_removed:
  "(out \<noteq> ''temp_speaker_multilingual.wav'' \<longrightarrow> ''temp_speaker_multilingual.wav'' \<notin> files w \<longrightarrow>
      ''temp_speaker_multilingual.wav'' \<notin>
        files (fst (ml_clone_voice_multilingual E L uni t vf out eq w)))
   \<and> (out \<noteq> ''temp_speaker_websocket.wav'' \<longrightarrow> ''temp_speaker_websocket.wav'' \<notin> files w \<longrightarrow>
      ''temp_speaker_websocket.wav'' \<notin>
        files (fst (ws_clone_voice_multilingual E L uni t vf out w)))
   \<and> (rt_temp_speaker_path hash t \<notin> files w \<longrightarrow>
      rt_temp_speaker_path hash t \<notin> files (fst (rt_clone_voice_realtime E L D hash t vf w)))"
  by (intro conjI impI) (rule ml_removed ws_removed rt_removed; assumption)+

theorem C8_speaker_file_removed_witness:
  "''out.wav'' \<noteq> ''temp_speaker_multilingual.wav''
   \<and> ''temp_speaker_multilingual.wav'' \<notin> files fresh_world
   \<and> ''temp_speaker_multilingual.wav'' \<notin>
       files (fst (ml_clone_voice_multilingual steady_engine strict_libs (\<lambda>c. False)
                     (ascii ''Hi. Yo.'') sample_features ''out.wav'' False fresh_world))
   \<and> ''out.wav'' \<noteq> ''temp_speaker_websocket.wav''
   \<and> ''temp_speaker_websocket.wav'' \<notin> files fresh_world
   \<and> ''temp_speaker_websocket.wav'' \<notin>
       files (fst (ws_clone_voice_multilingual steady_engine strict_libs (\<lambda>c. False)
                     (ascii ''Hi. Yo.'') sample_features ''out.wav'' fresh_world))
   \<and> rt_temp_speaker_path (\<lambda>t. 12345) (ascii ''Hi. Yo.'') \<notin> files fresh_world
   \<and> rt_temp_speaker_path (\<lambda>t. 12345) (ascii ''Hi. Yo.'') \<notin>
       files (fst (rt_clone_voice_realtime steady_engine strict_libs closing_driver (\<lambda>t. 12345)
                     (ascii ''Hi. Yo.'') sample_features fresh_world))
   \<and> snd (rt_clone_voice_realtime steady_engine strict_libs closing_driver (\<lambda>t. 12345)
            (ascii ''Hi. Yo.'') sample_features fresh_world) = ([[16383, - 16383]], Closed)"
  using C8_speaker_file_removed [of "''out.wav''" fresh_world steady_engine strict_libs
      "\<lambda>c. False" "ascii ''Hi. Yo.''" sample_features False "\<lambda>t. 12345" closing_driver]
  by (simp add: fresh_world_sel closed_stream)

section \<open>The peak of the sanitized audio in rounded arithmetic\<close>

lemmas fl_eval = fl_def expo_def rne_def pow2_def bits.simps Let_def


















text \<open>
  The order of \<open>_minimal_final_cleanup\<close>, \<open>audio / peak * 0.95\<close>, keeps the bound for the
  same peak: the quotient of the peak by itself is 1, and its product with the literal
  is the literal.
\<close>

lemma divide_first_keeps_bound:
  "fmul Float64
     (fdiv Float64 (Val (8303185992137277 / 281474976710656))
        (Val (8303185992137277 / 281474976710656)))
     (py_float (95 / 100))
     = Val (4278419646001971 / 4503599627370496)"
  "within_095 (Val (4278419646001971 / 4503599627370496))"
  by (simp_all add: fdiv_def fmul_def py_float_def fl_eval)

text \<open>
  The other half of the property holds: whatever the input and the library,
  \<open>_final_audio_cleanup\<close> returns finite samples only, \<open>np.nan_to_num\<close> being its last
  step and the handler being reached with an empty array only.
\<close>

lemma nan_to_num_finite: "is_finite (nan_to_num v)"
  by (cases v) simp_all

lemma final_cleanup_finite: "list_all is_finite (snd (fp_final_audio_cleanup N a))"
  unfolding fp_final_audio_cleanup_def Let_def
  by (auto simp: fp_max_def fp_final_handler_def fp_clip_def list_all_iff nan_to_num_finite
        split: sum.splits list.splits)

lemma sanitize_finite: "list_all is_finite (snd (fp_sanitize N a))"
  by (simp add: fp_sanitize_def final_cleanup_finite)


end
